theory Spec2Isabelle
  imports Complex_Main
begin

section \<open>Conventions\<close>

text \<open>
  The program is Python on top of NumPy and PyBullet. Python ints are modelled by
  \<open>int\<close>, loop indices of \<open>range\<close> by \<open>nat\<close>. A float is modelled by the real number
  that it stands for wherever it is only measured, stored or compared. Where a float
  decides how often a loop runs (the step count of line 186 of physics_engine.py and the
  length of \<open>np.arange\<close> in smoke_finder.py) the model computes as the machine does, on
  IEEE-754 doubles, with the rounding, the infinities and the NaN that Python's floats
  have. A raised exception is the left summand of a sum type; the PyBullet world is an
  explicit state that every operation takes and returns, also when it raises.
\<close>

datatype error =
    ValueError          \<comment> \<open>the spec's \<open>InvalidInput\<close>: wrong number of coordinates\<close>
  | ZeroDivisionError
  | OverflowError       \<comment> \<open>\<open>int\<close> of an infinite float\<close>
  | UnboundLocalError   \<comment> \<open>a local variable read before any assignment\<close>
  | IndexError
  | BulletError         \<comment> \<open>\<open>pybullet.error\<close>, the spec's \<open>SimulationFailure\<close>\<close>

section \<open>physics\_config.py\<close>

datatype ThrowType = LEFT_CLICK | BOTH_CLICKS | RIGHT_CLICK

record PhysicsConfig =
  gravity :: real
  time_step :: real
  grenade_mass :: real
  grenade_radius :: real
  grenade_restitution :: real
  grenade_friction :: real
  grenade_linear_damping :: real
  grenade_angular_damping :: real
  throw_speeds :: "ThrowType \<rightharpoonup> real"
  player_height :: real
  hand_height :: real
  units_per_meter :: real
  meters_per_unit :: real

text \<open>The table that \<open>__post_init__\<close> installs when \<open>throw_speeds is None\<close>.\<close>

definition default_throw_speeds :: "ThrowType \<rightharpoonup> real" where
  "default_throw_speeds =
     [LEFT_CLICK \<mapsto> 1000, BOTH_CLICKS \<mapsto> 600, RIGHT_CLICK \<mapsto> 400]"

text \<open>The global instance \<open>CS2_PHYSICS = PhysicsConfig.cs2_default()\<close>.\<close>

definition CS2_PHYSICS :: PhysicsConfig where
  "CS2_PHYSICS = \<lparr>
     gravity = 800,
     time_step = 1 / 120,
     grenade_mass = 5 / 10,
     grenade_radius = 1 / 10,
     grenade_restitution = 45 / 100,
     grenade_friction = 5 / 10,
     grenade_linear_damping = 3 / 100,
     grenade_angular_damping = 1 / 10,
     throw_speeds = default_throw_speeds,
     player_height = 18 / 10,
     hand_height = 56 / 100,
     units_per_meter = 3937 / 100,
     meters_per_unit = 254 / 10000 \<rparr>"

text \<open>\<open>self.throw_speeds.get(throw_type, 900.0)\<close>\<close>

definition get_throw_speed :: "PhysicsConfig \<Rightarrow> ThrowType \<Rightarrow> real" where
  "get_throw_speed cfg throw_type =
     (case throw_speeds cfg throw_type of None \<Rightarrow> 900 | Some v \<Rightarrow> v)"

section \<open>map\_loader.py: coordinate conversion\<close>

definition convert_cs2_to_bullet :: "PhysicsConfig \<Rightarrow> real list \<Rightarrow> error + real list" where
  "convert_cs2_to_bullet cfg position =
     (let scale = meters_per_unit cfg in
      if length position \<noteq> 3 then Inl ValueError
      else (let x = position ! 0; y = position ! 1; z = position ! 2
            in Inr [x * scale, z * scale, y * scale]))"

text \<open>
  \<open>convert_bullet_to_cs2\<close> has no length check of its own; the tuple assignment
  \<open>x, y, z = position\<close> raises \<open>ValueError\<close> for any other length.
\<close>

definition convert_bullet_to_cs2 :: "PhysicsConfig \<Rightarrow> real list \<Rightarrow> error + real list" where
  "convert_bullet_to_cs2 cfg position =
     (let scale = units_per_meter cfg in
      if length position \<noteq> 3 then Inl ValueError
      else (let x = position ! 0; y = position ! 1; z = position ! 2
            in Inr [x * scale, z * scale, y * scale]))"

text \<open>The composition \<open>convert_bullet_to_cs2(convert_cs2_to_bullet(v))\<close>.\<close>

definition roundtrip :: "PhysicsConfig \<Rightarrow> real list \<Rightarrow> error + real list" where
  "roundtrip cfg v =
     (case convert_cs2_to_bullet cfg v of
        Inl e \<Rightarrow> Inl e
      | Inr b \<Rightarrow> convert_bullet_to_cs2 cfg b)"

section \<open>Python floats\<close>

text \<open>
  A Python float is an IEEE-754 double: a finite value, an infinity or NaN. \<open>Finite x\<close>
  is the float that the literal or the value \<open>x\<close> denotes, that is the double nearest to
  \<open>x\<close> (\<open>as_double\<close> makes the step explicit; on a double it changes nothing).
\<close>

datatype pyfloat = Finite real | PosInf | NegInf | NaN

text \<open>
  Rounding to the nearest double, ties to even: a double has 53 significant bits, so a
  number of binary exponent \<open>e\<close> is rounded to a multiple of \<open>2 ^ (e - 52)\<close>; below
  the exponent -1022 the spacing stays that of the subnormal numbers; a result of
  magnitude \<open>2 ^ 1024\<close> or more is an infinity. (The sign of a zero is not kept.)
\<close>

definition pow2 :: "int \<Rightarrow> real" where
  "pow2 k = (if 0 \<le> k then 2 ^ nat k else 1 / 2 ^ nat (- k))"

definition rne :: "real \<Rightarrow> int" where
  "rne z = (let f = \<lfloor>z\<rfloor>; d = z - of_int f
            in if d < 1 / 2 then f else if 1 / 2 < d then f + 1
               else if even f then f else f + 1)"

definition ilog2 :: "real \<Rightarrow> int" where
  "ilog2 x = \<lfloor>log 2 \<bar>x\<bar>\<rfloor>"

definition round_double :: "real \<Rightarrow> pyfloat" where
  "round_double x =
     (if x = 0 then Finite 0
      else (let e = max (ilog2 x) (- 1022);
                y = of_int (rne (x / pow2 (e - 52))) * pow2 (e - 52)
            in if pow2 1024 \<le> \<bar>y\<bar> then (if 0 < x then PosInf else NegInf) else Finite y))"

definition as_double :: "pyfloat \<Rightarrow> pyfloat" where
  "as_double a = (case a of Finite x \<Rightarrow> round_double x | _ \<Rightarrow> a)"

text \<open>The sum, the difference, the product and the quotient of two doubles, as IEEE-754 defines them.\<close>

fun fadd :: "pyfloat \<Rightarrow> pyfloat \<Rightarrow> pyfloat" where
  "fadd NaN b = NaN"
| "fadd a NaN = NaN"
| "fadd PosInf NegInf = NaN"
| "fadd NegInf PosInf = NaN"
| "fadd PosInf b = PosInf"
| "fadd a PosInf = PosInf"
| "fadd NegInf b = NegInf"
| "fadd a NegInf = NegInf"
| "fadd (Finite x) (Finite y) = round_double (x + y)"

fun fneg :: "pyfloat \<Rightarrow> pyfloat" where
  "fneg (Finite x) = Finite (- x)"
| "fneg PosInf = NegInf"
| "fneg NegInf = PosInf"
| "fneg NaN = NaN"

definition fsub :: "pyfloat \<Rightarrow> pyfloat \<Rightarrow> pyfloat" where
  "fsub a b = fadd a (fneg b)"

fun fmul :: "pyfloat \<Rightarrow> pyfloat \<Rightarrow> pyfloat" where
  "fmul NaN b = NaN"
| "fmul a NaN = NaN"
| "fmul (Finite x) (Finite y) = round_double (x * y)"
| "fmul (Finite x) PosInf = (if x = 0 then NaN else if 0 < x then PosInf else NegInf)"
| "fmul (Finite x) NegInf = (if x = 0 then NaN else if 0 < x then NegInf else PosInf)"
| "fmul PosInf (Finite y) = (if y = 0 then NaN else if 0 < y then PosInf else NegInf)"
| "fmul NegInf (Finite y) = (if y = 0 then NaN else if 0 < y then NegInf else PosInf)"
| "fmul PosInf PosInf = PosInf"
| "fmul PosInf NegInf = NegInf"
| "fmul NegInf PosInf = NegInf"
| "fmul NegInf NegInf = PosInf"

fun fdiv :: "pyfloat \<Rightarrow> pyfloat \<Rightarrow> pyfloat" where
  "fdiv NaN b = NaN"
| "fdiv a NaN = NaN"
| "fdiv (Finite x) (Finite y) =
     (if y = 0 then (if x = 0 then NaN else if 0 < x then PosInf else NegInf)
      else round_double (x / y))"
| "fdiv (Finite x) b = Finite 0"
| "fdiv PosInf (Finite y) = (if 0 \<le> y then PosInf else NegInf)"
| "fdiv NegInf (Finite y) = (if 0 \<le> y then NegInf else PosInf)"
| "fdiv a b = NaN"

text \<open>
  Python's \<open>a / b\<close> on floats raises \<open>ZeroDivisionError\<close> for a zero divisor;
  \<open>int(a)\<close> truncates a finite float toward zero and raises \<open>OverflowError\<close> for an
  infinity and \<open>ValueError\<close> for NaN; \<open>a <= 0\<close> is false for NaN.
\<close>

definition float_div :: "pyfloat \<Rightarrow> pyfloat \<Rightarrow> error + pyfloat" where
  "float_div a b =
     (if as_double b = Finite 0 then Inl ZeroDivisionError
      else Inr (fdiv (as_double a) (as_double b)))"

definition py_int :: "real \<Rightarrow> int" where
  "py_int x = (if 0 \<le> x then \<lfloor>x\<rfloor> else \<lceil>x\<rceil>)"

definition int_of_float :: "pyfloat \<Rightarrow> error + int" where
  "int_of_float a =
     (case a of Finite x \<Rightarrow> Inr (py_int x) | NaN \<Rightarrow> Inl ValueError | _ \<Rightarrow> Inl OverflowError)"

definition float_le_zero :: "pyfloat \<Rightarrow> bool" where
  "float_le_zero a =
     (case as_double a of Finite x \<Rightarrow> x \<le> 0 | NegInf \<Rightarrow> True | _ \<Rightarrow> False)"

section \<open>NumPy helpers\<close>

definition radians :: "real \<Rightarrow> real" where
  "radians d = d * pi / 180"

definition degrees :: "real \<Rightarrow> real" where
  "degrees r = r * 180 / pi"

text \<open>\<open>np.linalg.norm\<close> of a vector: the Euclidean norm.\<close>

definition linalg_norm :: "real list \<Rightarrow> real" where
  "linalg_norm v = sqrt (sum_list (map (\<lambda>x. x * x) v))"

text \<open>Element-wise \<open>a - b\<close> and \<open>a * s\<close> of arrays of one shape.\<close>

definition vsub :: "real list \<Rightarrow> real list \<Rightarrow> real list" where
  "vsub a b = map (\<lambda>(x, y). x - y) (zip a b)"

definition vscale :: "real list \<Rightarrow> real \<Rightarrow> real list" where
  "vscale a s = map (\<lambda>x. x * s) a"

text \<open>
  \<open>np.arctan2(y, x)\<close>: the angle of the point \<open>(x, y)\<close> in \<open>(-pi, pi]\<close>, and 0 at
  the origin.
\<close>

definition arctan2 :: "real \<Rightarrow> real \<Rightarrow> real" where
  "arctan2 y x =
     (if 0 < x then arctan (y / x)
      else if x < 0 \<and> 0 \<le> y then arctan (y / x) + pi
      else if x < 0 then arctan (y / x) - pi
      else if 0 < y then pi / 2
      else if y < 0 then - (pi / 2)
      else 0)"

text \<open>
  \<open>np.arange(start, stop, step)\<close> on doubles: the length is the ceiling of
  \<open>(stop - start) / step\<close>, the difference and the quotient computed in doubles.
  NumPy raises \<open>ValueError\<close> when the quotient is NaN and \<open>OverflowError\<close> when its
  ceiling is not a signed 64-bit integer (NumPy compares doubles there and lets a ceiling
  of exactly \<open>2 ^ 63\<close> pass, with a length that C leaves undefined; the model raises
  for it as well); a length below 1 gives the empty array. The
  first element is \<open>start\<close>, the second is \<open>next = start + step\<close>, and the element of
  index \<open>i\<close> from 2 on is \<open>start + i * delta\<close> with \<open>delta = next - start\<close>, every
  operation rounded to a double. (An array too long for the memory raises as well; that
  is not modelled.)
\<close>

definition float_value :: "pyfloat \<Rightarrow> real" where
  "float_value a = (case a of Finite x \<Rightarrow> x | _ \<Rightarrow> 0)"

definition arange_element :: "pyfloat \<Rightarrow> pyfloat \<Rightarrow> nat \<Rightarrow> pyfloat" where
  "arange_element start step i =
     (let next = fadd start step; delta = fsub next start
      in if i = 0 then start else if i = 1 then next
         else fadd start (fmul (Finite (real i)) delta))"

definition arange :: "pyfloat \<Rightarrow> pyfloat \<Rightarrow> pyfloat \<Rightarrow> error + pyfloat list" where
  "arange start stop step =
     (case fdiv (fsub stop start) step of
        NaN \<Rightarrow> Inl ValueError
      | Finite q \<Rightarrow>
          if - (2 ^ 63) \<le> \<lceil>q\<rceil> \<and> \<lceil>q\<rceil> < 2 ^ 63
          then Inr (map (arange_element start step) [0..<nat \<lceil>q\<rceil>])
          else Inl OverflowError
      | _ \<Rightarrow> Inl OverflowError)"

text \<open>
  \<open>np.linspace(start, stop, num)\<close> has \<open>num\<close> elements
  \<open>start + i * (stop - start) / (num - 1)\<close>.
\<close>

definition linspace :: "real \<Rightarrow> real \<Rightarrow> nat \<Rightarrow> real list" where
  "linspace start stop num =
     map (\<lambda>i. start + real i * ((stop - start) / real (num - 1))) [0..<num]"

section \<open>The PyBullet world\<close>

text \<open>
  PyBullet is an external library. The world it keeps is modelled by the bodies it
  holds and by counters of what was asked of it; what the library computes is a
  parameter of the model: \<open>advance bs j b\<close> is the body \<open>b\<close> with id \<open>j\<close> after one
  \<open>stepSimulation\<close> in a scene whose dynamic bodies are \<open>bs\<close> (gravity, contacts with
  the map and with the other bodies, damping: all of it lives there), and \<open>faulty k\<close>
  says that the \<open>k\<close>-th call of the library raises \<open>pybullet.error\<close>. A step moves
  bodies; it neither creates nor removes one.
\<close>

type_synonym vec3 = "real \<times> real \<times> real"

record body =
  b_pos :: vec3
  b_vel :: vec3
  b_mass :: real
  b_shape :: nat
  b_restitution :: real
  b_friction :: real
  b_linear_damping :: real
  b_angular_damping :: real

record engine =
  advance :: "(nat \<times> body) list \<Rightarrow> nat \<Rightarrow> body \<Rightarrow> body"
  faulty :: "nat \<Rightarrow> bool"

record world =
  map_bodies :: "nat list"                \<comment> \<open>ids of the static map geometry\<close>
  dynamic_bodies :: "(nat \<times> body) list"   \<comment> \<open>live dynamic bodies, by id\<close>
  col_shapes :: "real list"               \<comment> \<open>radii of the sphere shapes created\<close>
  vis_shapes :: nat
  calls :: nat                            \<comment> \<open>library calls issued so far\<close>
  steps :: nat                            \<comment> \<open>\<open>stepSimulation\<close> calls completed\<close>
  created :: nat                          \<comment> \<open>dynamic bodies ever created\<close>

definition tick :: "world \<Rightarrow> world" where
  "tick w = w\<lparr>calls := Suc (calls w)\<rparr>"

definition body_ids :: "world \<Rightarrow> nat list" where
  "body_ids w = map fst (dynamic_bodies w)"

text \<open>A new body gets an id that no body of the world has.\<close>

definition fresh_id :: "world \<Rightarrow> nat" where
  "fresh_id w = Suc (foldr max (map_bodies w @ body_ids w) 0)"

definition list_of_vec3 :: "vec3 \<Rightarrow> real list" where
  "list_of_vec3 v = (case v of (x, y, z) \<Rightarrow> [x, y, z])"

definition update_body :: "nat \<Rightarrow> (body \<Rightarrow> body) \<Rightarrow> (nat \<times> body) list \<Rightarrow> (nat \<times> body) list" where
  "update_body i f bs = map (\<lambda>(j, b). if j = i then (j, f b) else (j, b)) bs"

definition createCollisionShape :: "engine \<Rightarrow> world \<Rightarrow> real \<Rightarrow> (error + nat) \<times> world" where
  "createCollisionShape eng w radius =
     (if faulty eng (calls w) then (Inl BulletError, tick w)
      else (Inr (length (col_shapes w)), tick (w\<lparr>col_shapes := col_shapes w @ [radius]\<rparr>)))"

definition createVisualShape :: "engine \<Rightarrow> world \<Rightarrow> real \<Rightarrow> (error + nat) \<times> world" where
  "createVisualShape eng w radius =
     (if faulty eng (calls w) then (Inl BulletError, tick w)
      else (Inr (vis_shapes w), tick (w\<lparr>vis_shapes := Suc (vis_shapes w)\<rparr>)))"

text \<open>
  A new body is at rest and has the library's default dynamics; \<open>simulate_throw\<close>
  overwrites all four of them with \<open>changeDynamics\<close> before any step.
\<close>

definition createMultiBody ::
  "engine \<Rightarrow> world \<Rightarrow> real \<Rightarrow> nat \<Rightarrow> nat \<Rightarrow> real list \<Rightarrow> (error + nat) \<times> world" where
  "createMultiBody eng w baseMass shape visual basePosition =
     (if faulty eng (calls w) \<or> length basePosition \<noteq> 3 then (Inl BulletError, tick w)
      else (let i = fresh_id w;
                b = \<lparr> b_pos = (basePosition ! 0, basePosition ! 1, basePosition ! 2),
                      b_vel = (0, 0, 0), b_mass = baseMass, b_shape = shape,
                      b_restitution = 0, b_friction = 5 / 10,
                      b_linear_damping = 4 / 100, b_angular_damping = 4 / 100 \<rparr>
            in (Inr i, tick (w\<lparr>dynamic_bodies := dynamic_bodies w @ [(i, b)],
                               created := Suc (created w)\<rparr>))))"

definition changeDynamics ::
  "engine \<Rightarrow> world \<Rightarrow> nat \<Rightarrow> real \<Rightarrow> real \<Rightarrow> real \<Rightarrow> real \<Rightarrow> (error + unit) \<times> world" where
  "changeDynamics eng w i restitution lateralFriction linearDamping angularDamping =
     (if faulty eng (calls w) \<or> i \<notin> set (body_ids w) then (Inl BulletError, tick w)
      else (Inr (), tick (w\<lparr>dynamic_bodies :=
              update_body i (\<lambda>b. b\<lparr>b_restitution := restitution, b_friction := lateralFriction,
                                   b_linear_damping := linearDamping,
                                   b_angular_damping := angularDamping\<rparr>) (dynamic_bodies w)\<rparr>)))"

definition resetBaseVelocity :: "engine \<Rightarrow> world \<Rightarrow> nat \<Rightarrow> real list \<Rightarrow> (error + unit) \<times> world" where
  "resetBaseVelocity eng w i linearVelocity =
     (if faulty eng (calls w) \<or> i \<notin> set (body_ids w) \<or> length linearVelocity \<noteq> 3
      then (Inl BulletError, tick w)
      else (Inr (), tick (w\<lparr>dynamic_bodies :=
              update_body i (\<lambda>b. b\<lparr>b_vel := (linearVelocity ! 0, linearVelocity ! 1,
                                              linearVelocity ! 2)\<rparr>) (dynamic_bodies w)\<rparr>)))"

definition step_bodies :: "engine \<Rightarrow> (nat \<times> body) list \<Rightarrow> (nat \<times> body) list" where
  "step_bodies eng bs = map (\<lambda>(j, b). (j, advance eng bs j b)) bs"

definition stepSimulation :: "engine \<Rightarrow> world \<Rightarrow> (error + unit) \<times> world" where
  "stepSimulation eng w =
     (if faulty eng (calls w) then (Inl BulletError, tick w)
      else (Inr (), tick (w\<lparr>dynamic_bodies := step_bodies eng (dynamic_bodies w),
                            steps := Suc (steps w)\<rparr>)))"

definition getBasePositionAndOrientation :: "engine \<Rightarrow> world \<Rightarrow> nat \<Rightarrow> (error + vec3) \<times> world" where
  "getBasePositionAndOrientation eng w i =
     (if faulty eng (calls w) then (Inl BulletError, tick w)
      else (case map_of (dynamic_bodies w) i of
              None \<Rightarrow> (Inl BulletError, tick w)
            | Some b \<Rightarrow> (Inr (b_pos b), tick w)))"

definition getBaseVelocity :: "engine \<Rightarrow> world \<Rightarrow> nat \<Rightarrow> (error + vec3) \<times> world" where
  "getBaseVelocity eng w i =
     (if faulty eng (calls w) then (Inl BulletError, tick w)
      else (case map_of (dynamic_bodies w) i of
              None \<Rightarrow> (Inl BulletError, tick w)
            | Some b \<Rightarrow> (Inr (b_vel b), tick w)))"

definition removeBody :: "engine \<Rightarrow> world \<Rightarrow> nat \<Rightarrow> (error + unit) \<times> world" where
  "removeBody eng w i =
     (if faulty eng (calls w) \<or> i \<notin> set (body_ids w) then (Inl BulletError, tick w)
      else (Inr (), tick (w\<lparr>dynamic_bodies := filter (\<lambda>(j, b). j \<noteq> i) (dynamic_bodies w)\<rparr>)))"

section \<open>physics\_engine.py: simulate\_throw\<close>

text \<open>
  The direction of the throw in game coordinates (X east, Y north, Z up), lines 129 to
  137, and its conversion to PyBullet's axes, lines 140 to 144: the second and third
  components change places, nothing is scaled.
\<close>

definition direction_cs2 :: "real \<Rightarrow> real \<Rightarrow> real list" where
  "direction_cs2 pitch yaw =
     (let pitch_rad = radians pitch; yaw_rad = radians yaw
      in [cos pitch_rad * cos yaw_rad, cos pitch_rad * sin yaw_rad, sin pitch_rad])"

definition direction_bullet :: "real list \<Rightarrow> real list" where
  "direction_bullet d = [d ! 0, d ! 2, d ! 1]"

text \<open>Lines 147, 148 and 180: the initial velocity in PyBullet's space.\<close>

definition velocity_bullet :: "PhysicsConfig \<Rightarrow> real \<Rightarrow> real \<Rightarrow> ThrowType \<Rightarrow> real list" where
  "velocity_bullet cfg pitch yaw throw_type =
     (let speed_cs2 = get_throw_speed cfg throw_type;
          speed_bullet = speed_cs2 * meters_per_unit cfg
      in vscale (direction_bullet (direction_cs2 pitch yaw)) speed_bullet)"

text \<open>
  Lines 151 to 181: the grenade is created, its dynamics set and its velocity reset;
  five calls of the library, each of which may raise.
\<close>

definition spawn_grenade ::
  "engine \<Rightarrow> PhysicsConfig \<Rightarrow> world \<Rightarrow> real list \<Rightarrow> real list \<Rightarrow> (error + nat) \<times> world" where
  "spawn_grenade eng cfg w start_bullet velocity =
     (case createCollisionShape eng w (grenade_radius cfg) of
        (Inl e, w1) \<Rightarrow> (Inl e, w1)
      | (Inr grenade_shape, w1) \<Rightarrow>
     (case createVisualShape eng w1 (grenade_radius cfg) of
        (Inl e, w2) \<Rightarrow> (Inl e, w2)
      | (Inr grenade_visual, w2) \<Rightarrow>
     (case createMultiBody eng w2 (grenade_mass cfg) grenade_shape grenade_visual start_bullet of
        (Inl e, w3) \<Rightarrow> (Inl e, w3)
      | (Inr grenade_id, w3) \<Rightarrow>
     (case changeDynamics eng w3 grenade_id (grenade_restitution cfg) (grenade_friction cfg)
             (grenade_linear_damping cfg) (grenade_angular_damping cfg) of
        (Inl e, w4) \<Rightarrow> (Inl e, w4)
      | (Inr u, w4) \<Rightarrow>
     (case resetBaseVelocity eng w4 grenade_id velocity of
        (Inl e, w5) \<Rightarrow> (Inl e, w5)
      | (Inr u, w5) \<Rightarrow> (Inr grenade_id, w5))))))"

text \<open>
  The variables of the loop of lines 184 to 213. \<open>step\<close> is the loop variable: it has
  no value until the first iteration assigns one. (\<open>trajectory_bullet\<close> is appended to
  and never read; it is left out.)
\<close>

record loop_vars =
  trajectory_cs2 :: "real list list"
  n_bounces :: nat
  last_velocity_mag :: real
  step :: "nat option"

text \<open>The two tests of lines 206 and 212.\<close>

definition is_bounce :: "PhysicsConfig \<Rightarrow> real \<Rightarrow> real \<Rightarrow> bool" where
  "is_bounce cfg current_velocity_mag last_mag =
     (\<bar>current_velocity_mag - last_mag\<bar> > 100 * meters_per_unit cfg)"

definition at_rest :: "PhysicsConfig \<Rightarrow> real \<Rightarrow> nat \<Rightarrow> bool" where
  "at_rest cfg current_velocity_mag i =
     (current_velocity_mag < 10 * meters_per_unit cfg \<and> i > 50)"

text \<open>
  \<open>for step in range(num_steps)\<close>, lines 190 to 213, as a recursion over the indices
  that \<open>range\<close> yields; \<open>break\<close> returns without visiting the rest.
\<close>

fun sim_loop ::
  "engine \<Rightarrow> PhysicsConfig \<Rightarrow> nat \<Rightarrow> nat list \<Rightarrow> loop_vars \<Rightarrow> world \<Rightarrow> (error + loop_vars) \<times> world" where
  "sim_loop eng cfg grenade_id [] lv w = (Inr lv, w)"
| "sim_loop eng cfg grenade_id (i # rest) lv w =
     (case stepSimulation eng w of
        (Inl e, w1) \<Rightarrow> (Inl e, w1)
      | (Inr u, w1) \<Rightarrow>
     (case getBasePositionAndOrientation eng w1 grenade_id of
        (Inl e, w2) \<Rightarrow> (Inl e, w2)
      | (Inr pos_bullet, w2) \<Rightarrow>
     (case convert_bullet_to_cs2 cfg (list_of_vec3 pos_bullet) of
        Inl e \<Rightarrow> (Inl e, w2)
      | Inr pos_cs2 \<Rightarrow>
     (case getBaseVelocity eng w2 grenade_id of
        (Inl e, w3) \<Rightarrow> (Inl e, w3)
      | (Inr linear_vel, w3) \<Rightarrow>
        (let current_velocity_mag = linalg_norm (list_of_vec3 linear_vel);
             lv' = \<lparr> trajectory_cs2 = trajectory_cs2 lv @ [pos_cs2],
                     n_bounces = (if is_bounce cfg current_velocity_mag (last_velocity_mag lv)
                                  then Suc (n_bounces lv) else n_bounces lv),
                     last_velocity_mag = current_velocity_mag,
                     step = Some i \<rparr>
         in if at_rest cfg current_velocity_mag i then (Inr lv', w3)
            else sim_loop eng cfg grenade_id rest lv' w3)))))"

record info =
  final_position :: "real list"
  final_velocity :: real
  bounces :: nat
  simulation_time :: real
  trajectory_points :: nat

text \<open>
  Lines 215 to 234: the last position and velocity are read, the grenade is removed, and
  the result is built. The result reads \<open>step\<close>, which is unbound when the loop had no
  iteration. (\<open>final_velocity\<close> divides a NumPy float: for \<open>meters_per_unit = 0\<close> NumPy
  gives infinity or nan where this model gives 0.)
\<close>

definition finish_throw ::
  "engine \<Rightarrow> PhysicsConfig \<Rightarrow> nat \<Rightarrow> loop_vars \<Rightarrow> world \<Rightarrow> (error + real list list \<times> info) \<times> world" where
  "finish_throw eng cfg grenade_id lv w =
     (case getBasePositionAndOrientation eng w grenade_id of
        (Inl e, w1) \<Rightarrow> (Inl e, w1)
      | (Inr final_pos_bullet, w1) \<Rightarrow>
     (case convert_bullet_to_cs2 cfg (list_of_vec3 final_pos_bullet) of
        Inl e \<Rightarrow> (Inl e, w1)
      | Inr final_pos_cs2 \<Rightarrow>
     (case getBaseVelocity eng w1 grenade_id of
        (Inl e, w2) \<Rightarrow> (Inl e, w2)
      | (Inr final_vel, w2) \<Rightarrow>
        (let final_speed_cs2 = linalg_norm (list_of_vec3 final_vel) / meters_per_unit cfg
         in (case removeBody eng w2 grenade_id of
               (Inl e, w3) \<Rightarrow> (Inl e, w3)
             | (Inr u, w3) \<Rightarrow>
            (case step lv of
               None \<Rightarrow> (Inl UnboundLocalError, w3)
             | Some i \<Rightarrow>
                 (Inr (trajectory_cs2 lv,
                       \<lparr> final_position = final_pos_cs2,
                         final_velocity = final_speed_cs2,
                         bounces = n_bounces lv,
                         simulation_time = real i * time_step cfg,
                         trajectory_points = length (trajectory_cs2 lv) \<rparr>), w3)))))))"

text \<open>
  \<open>num_steps = int(max_time / CS2_PHYSICS.time_step)\<close>, line 186: a division of two
  floats and a conversion, each of which may raise.
\<close>

definition num_steps :: "PhysicsConfig \<Rightarrow> pyfloat \<Rightarrow> error + int" where
  "num_steps cfg max_time =
     (case float_div max_time (Finite (time_step cfg)) of
        Inl e \<Rightarrow> Inl e
      | Inr q \<Rightarrow> int_of_float q)"

definition simulate_throw ::
  "engine \<Rightarrow> PhysicsConfig \<Rightarrow> world \<Rightarrow> real list \<Rightarrow> real \<Rightarrow> real \<Rightarrow> ThrowType \<Rightarrow> pyfloat
     \<Rightarrow> (error + real list list \<times> info) \<times> world" where
  "simulate_throw eng cfg w start_pos pitch yaw throw_type max_time =
     (case convert_cs2_to_bullet cfg start_pos of
        Inl e \<Rightarrow> (Inl e, w)
      | Inr start_bullet \<Rightarrow>
     (case spawn_grenade eng cfg w start_bullet (velocity_bullet cfg pitch yaw throw_type) of
        (Inl e, w1) \<Rightarrow> (Inl e, w1)
      | (Inr grenade_id, w1) \<Rightarrow>
     (case num_steps cfg max_time of
        Inl e \<Rightarrow> (Inl e, w1)
      | Inr n \<Rightarrow>
     (case sim_loop eng cfg grenade_id [0..<nat n]
             \<lparr> trajectory_cs2 = [], n_bounces = 0,
               last_velocity_mag = get_throw_speed cfg throw_type * meters_per_unit cfg,
               step = None \<rparr> w1 of
        (Inl e, w2) \<Rightarrow> (Inl e, w2)
      | (Inr lv, w2) \<Rightarrow> finish_throw eng cfg grenade_id lv w2))))"

section \<open>smoke\_finder.py\<close>

datatype SearchStrategy = GRID_SEARCH | GENETIC | HYBRID

text \<open>
  \<open>SmokePosition\<close>. The field \<open>cs2_commands\<close>, three strings that \<open>__post_init__\<close>
  formats from \<open>throw_position\<close> and \<open>angles\<close>, is left out: it is derived from the other
  fields and nothing reads it during the search. \<open>s_angles\<close> is the pair (pitch, yaw).
\<close>

record SmokePosition =
  s_throw_position :: "real list"
  s_angles :: "real \<times> real"
  s_throw_type :: ThrowType
  s_target_position :: "real list"
  s_landing_position :: "real list"
  accuracy :: real
  s_trajectory :: "real list list"
  s_bounces :: nat

text \<open>The attributes that \<open>SmokeFinder.__init__\<close> sets; nothing assigns them again.\<close>

definition max_accuracy :: real where
  "max_accuracy = 150"

definition search_radius :: real where
  "search_radius = 500"

definition grid_step :: real where
  "grid_step = 100"

text \<open>\<open>trajectory[::10]\<close>: every tenth element, the first included.\<close>

fun every10 :: "'a list \<Rightarrow> 'a list" where
  "every10 [] = []"
| "every10 (x # xs) = x # every10 (drop 9 xs)"

text \<open>\<open>xs[:n]\<close>: a negative \<open>n\<close> counts from the end of the list.\<close>

definition slice_to :: "'a list \<Rightarrow> int \<Rightarrow> 'a list" where
  "slice_to xs n = (if 0 \<le> n then take (nat n) xs else take (length xs - nat (- n)) xs)"

text \<open>
  The three nested loops of \<open>_grid_search\<close>, lines 78 to 89: the arguments of the calls
  \<open>self.physics.simulate_throw(throw_pos, pitch, base_yaw, throw_type, 2.0)\<close>, in the
  order in which the loops make them. The loops do not depend on what the calls return.
  The two \<open>np.arange\<close> are evaluated outside the \<open>try\<close>, the second at the start of
  the first iteration over \<open>x\<close>: what they raise ends the search before any throw, and
  so does \<open>target_pos - throw_pos\<close>, which raises \<open>ValueError\<close> in the first iteration
  when the target has more than three coordinates. An axis of the grid runs from
  \<open>c - search_radius\<close> to \<open>c + search_radius\<close>, both doubles; \<open>float_value\<close> reads
  the number that an element of the axis is.
\<close>

type_synonym throw_args = "real list \<times> real \<times> real \<times> ThrowType \<times> pyfloat"

definition grid_axis :: "real \<Rightarrow> error + real list" where
  "grid_axis c =
     (let c' = as_double (Finite c);
          r = as_double (Finite search_radius);
          s = as_double (Finite grid_step)
      in case arange (fsub c' r) (fadd c' r) s of
           Inl e \<Rightarrow> Inl e
         | Inr vs \<Rightarrow> Inr (map float_value vs))"

definition grid_calls :: "real list \<Rightarrow> ThrowType \<Rightarrow> error + throw_args list" where
  "grid_calls target_pos throw_type =
     (let center = target_pos[2 := 72] in
      case grid_axis (center ! 0) of
        Inl e \<Rightarrow> Inl e
      | Inr xs \<Rightarrow>
          if xs = [] then Inr []
          else (case grid_axis (center ! 1) of
                  Inl e \<Rightarrow> Inl e
                | Inr ys \<Rightarrow>
                    if ys = [] then Inr []
                    else if length target_pos \<noteq> 3 then Inl ValueError
                    else Inr (concat (map (\<lambda>x.
                      concat (map (\<lambda>y.
                        (let throw_pos = [x, y, center ! 2];
                             delta = vsub target_pos throw_pos;
                             base_yaw = degrees (arctan2 (delta ! 1) (delta ! 0))
                         in map (\<lambda>pitch. (throw_pos, pitch, base_yaw, throw_type, Finite 2))
                                (linspace (- 20) 60 10))) ys)) xs))))"

text \<open>
  The body of the innermost loop, lines 88 to 103: one simulated throw; a solution is
  appended when it lands close enough, and any exception drops the candidate.
\<close>

definition try_candidate ::
  "engine \<Rightarrow> PhysicsConfig \<Rightarrow> real list \<Rightarrow> throw_args
     \<Rightarrow> SmokePosition list \<times> world \<Rightarrow> SmokePosition list \<times> world" where
  "try_candidate eng cfg target_pos c sw =
     (case c of (throw_pos, pitch, base_yaw, throw_type, max_time) \<Rightarrow>
      case sw of (solutions, w) \<Rightarrow>
       (case simulate_throw eng cfg w throw_pos pitch base_yaw throw_type max_time of
          (Inl e, w') \<Rightarrow> (solutions, w')
        | (Inr (trajectory, res), w') \<Rightarrow>
            (let acc = linalg_norm (vsub (final_position res) target_pos)
             in if acc < max_accuracy
                then (solutions @
                       [\<lparr> s_throw_position = throw_pos,
                          s_angles = (pitch, base_yaw),
                          s_throw_type = throw_type,
                          s_target_position = target_pos,
                          s_landing_position = final_position res,
                          accuracy = acc,
                          s_trajectory = every10 trajectory,
                          s_bounces = bounces res \<rparr>], w')
                else (solutions, w'))))"

text \<open>
  \<open>_grid_search\<close> (an Isabelle name cannot start with an underscore). For a target of
  fewer than three coordinates \<open>center[2] = 72\<close> raises \<open>IndexError\<close>, outside the
  \<open>try\<close>. \<open>list.sort\<close> is stable, as \<open>sort_key\<close> is.
\<close>

definition grid_search ::
  "engine \<Rightarrow> PhysicsConfig \<Rightarrow> world \<Rightarrow> real list \<Rightarrow> ThrowType \<Rightarrow> int
     \<Rightarrow> (error + SmokePosition list) \<times> world" where
  "grid_search eng cfg w target_pos throw_type max_results =
     (if length target_pos < 3 then (Inl IndexError, w)
      else (case grid_calls target_pos throw_type of
              Inl e \<Rightarrow> (Inl e, w)
            | Inr cs \<Rightarrow>
                (case fold (try_candidate eng cfg target_pos) cs ([], w) of
                   (solutions, w') \<Rightarrow>
                     (Inr (slice_to (sort_key accuracy solutions) max_results), w'))))"

definition genetic_search ::
  "engine \<Rightarrow> PhysicsConfig \<Rightarrow> world \<Rightarrow> real list \<Rightarrow> ThrowType \<Rightarrow> int
     \<Rightarrow> (error + SmokePosition list) \<times> world" where
  "genetic_search eng cfg w target_pos throw_type max_results =
     grid_search eng cfg w target_pos throw_type max_results"

definition hybrid_search ::
  "engine \<Rightarrow> PhysicsConfig \<Rightarrow> world \<Rightarrow> real list \<Rightarrow> ThrowType \<Rightarrow> int
     \<Rightarrow> (error + SmokePosition list) \<times> world" where
  "hybrid_search eng cfg w target_pos throw_type max_results =
     grid_search eng cfg w target_pos throw_type max_results"

definition find_smokes ::
  "engine \<Rightarrow> PhysicsConfig \<Rightarrow> world \<Rightarrow> real list \<Rightarrow> ThrowType \<Rightarrow> SearchStrategy \<Rightarrow> int
     \<Rightarrow> (error + SmokePosition list) \<times> world" where
  "find_smokes eng cfg w target_pos throw_type strategy max_results =
     (if strategy = GRID_SEARCH then grid_search eng cfg w target_pos throw_type max_results
      else if strategy = GENETIC then genetic_search eng cfg w target_pos throw_type max_results
      else hybrid_search eng cfg w target_pos throw_type max_results)"

section \<open>Notions derived from the model\<close>

text \<open>
  The body that lines 162 to 181 leave in the world: created at \<open>start_bullet\<close> with the
  configured mass and shape, its dynamics changed, its velocity reset.
\<close>

definition grenade_body :: "PhysicsConfig \<Rightarrow> nat \<Rightarrow> real list \<Rightarrow> real list \<Rightarrow> body" where
  "grenade_body cfg shape start_bullet velocity =
     \<lparr> b_pos = (start_bullet ! 0, start_bullet ! 1, start_bullet ! 2),
       b_vel = (velocity ! 0, velocity ! 1, velocity ! 2),
       b_mass = grenade_mass cfg, b_shape = shape,
       b_restitution = grenade_restitution cfg, b_friction = grenade_friction cfg,
       b_linear_damping = grenade_linear_damping cfg,
       b_angular_damping = grenade_angular_damping cfg \<rparr>"

definition initial_body ::
  "PhysicsConfig \<Rightarrow> world \<Rightarrow> real list \<Rightarrow> real \<Rightarrow> real \<Rightarrow> ThrowType \<Rightarrow> body" where
  "initial_body cfg w start_pos pitch yaw throw_type =
     grenade_body cfg (length (col_shapes w))
       [start_pos ! 0 * meters_per_unit cfg, start_pos ! 2 * meters_per_unit cfg,
        start_pos ! 1 * meters_per_unit cfg]
       (velocity_bullet cfg pitch yaw throw_type)"

text \<open>
  The dynamic bodies of the world when the loop starts, and after \<open>k\<close> steps; the thrown
  grenade among them, and the magnitude of a body's velocity.
\<close>

definition initial_bodies ::
  "PhysicsConfig \<Rightarrow> world \<Rightarrow> real list \<Rightarrow> real \<Rightarrow> real \<Rightarrow> ThrowType \<Rightarrow> (nat \<times> body) list" where
  "initial_bodies cfg w start_pos pitch yaw throw_type =
     dynamic_bodies w @ [(fresh_id w, initial_body cfg w start_pos pitch yaw throw_type)]"

definition bodies_after ::
  "engine \<Rightarrow> PhysicsConfig \<Rightarrow> world \<Rightarrow> real list \<Rightarrow> real \<Rightarrow> real \<Rightarrow> ThrowType \<Rightarrow> nat
     \<Rightarrow> (nat \<times> body) list" where
  "bodies_after eng cfg w start_pos pitch yaw throw_type k =
     (step_bodies eng ^^ k) (initial_bodies cfg w start_pos pitch yaw throw_type)"

definition body_after ::
  "engine \<Rightarrow> PhysicsConfig \<Rightarrow> world \<Rightarrow> real list \<Rightarrow> real \<Rightarrow> real \<Rightarrow> ThrowType \<Rightarrow> nat \<Rightarrow> body" where
  "body_after eng cfg w start_pos pitch yaw throw_type k =
     (case map_of (bodies_after eng cfg w start_pos pitch yaw throw_type k) (fresh_id w) of
        None \<Rightarrow> initial_body cfg w start_pos pitch yaw throw_type
      | Some b \<Rightarrow> b)"

definition speed :: "body \<Rightarrow> real" where
  "speed b = linalg_norm (list_of_vec3 (b_vel b))"

definition speed_of :: "(nat \<times> body) list \<Rightarrow> nat \<Rightarrow> real" where
  "speed_of bs g = (case map_of bs g of None \<Rightarrow> 0 | Some b \<Rightarrow> speed b)"

text \<open>
  The bound of the loop: \<open>num_steps\<close> when line 186 yields one, and no iteration when it
  raises.
\<close>

definition loop_bound :: "PhysicsConfig \<Rightarrow> pyfloat \<Rightarrow> nat" where
  "loop_bound cfg max_time = (case num_steps cfg max_time of Inl e \<Rightarrow> 0 | Inr n \<Rightarrow> nat n)"

text \<open>
  The number of iterations that the loop makes over the indices \<open>is\<close> when no call of the
  library raises, as a function of the bodies \<open>bs\<close> at its start and the grenade's id.
\<close>

fun loop_len :: "engine \<Rightarrow> PhysicsConfig \<Rightarrow> nat \<Rightarrow> (nat \<times> body) list \<Rightarrow> nat list \<Rightarrow> nat" where
  "loop_len eng cfg g bs [] = 0"
| "loop_len eng cfg g bs (i # rest) =
     (let bs' = step_bodies eng bs
      in if at_rest cfg (speed_of bs' g) i then 1 else Suc (loop_len eng cfg g bs' rest))"

definition run_length ::
  "engine \<Rightarrow> PhysicsConfig \<Rightarrow> world \<Rightarrow> real list \<Rightarrow> real \<Rightarrow> real \<Rightarrow> ThrowType \<Rightarrow> pyfloat \<Rightarrow> nat" where
  "run_length eng cfg w start_pos pitch yaw throw_type max_time =
     loop_len eng cfg (fresh_id w) (initial_bodies cfg w start_pos pitch yaw throw_type)
       [0..<loop_bound cfg max_time]"

text \<open>
  The solutions of a search that returned, and none for one that raised; the same for
  the calls of the grid.
\<close>

definition calls_of :: "error + throw_args list \<Rightarrow> throw_args list" where
  "calls_of r = (case r of Inl e \<Rightarrow> [] | Inr cs \<Rightarrow> cs)"


definition solutions_of :: "(error + SmokePosition list) \<times> world \<Rightarrow> SmokePosition list" where
  "solutions_of r = (case fst r of Inl e \<Rightarrow> [] | Inr sols \<Rightarrow> sols)"

text \<open>What the search promises of a solution for the target \<open>target_pos\<close>.\<close>

definition good_solution :: "real list \<Rightarrow> SmokePosition \<Rightarrow> bool" where
  "good_solution target_pos s =
     (accuracy s < max_accuracy
      \<and> accuracy s = linalg_norm (vsub (s_landing_position s) target_pos))"

section \<open>The specification's wording, for comparison\<close>

text \<open>
  The specification bounds the loop by \<open>ceil(maxSimSeconds / timeStep)\<close> and lets it stop
  once the velocity is below the threshold and at least 50 steps have elapsed.
\<close>

definition spec_num_steps :: "PhysicsConfig \<Rightarrow> real \<Rightarrow> int" where
  "spec_num_steps cfg max_time = \<lceil>max_time / time_step cfg\<rceil>"

definition spec_at_rest :: "PhysicsConfig \<Rightarrow> real \<Rightarrow> nat \<Rightarrow> bool" where
  "spec_at_rest cfg velocity_mag steps_elapsed =
     (velocity_mag < 10 * meters_per_unit cfg \<and> 50 \<le> steps_elapsed)"

text \<open>
  The specification's grid: ten values from \<open>c - 500\<close> in steps of 100, all below
  \<open>c + 500\<close>, on each horizontal axis, and ten evenly spaced pitches from -20 to 60.
\<close>

definition spec_axis :: "real \<Rightarrow> real list" where
  "spec_axis c = [c - 500, c - 400, c - 300, c - 200, c - 100, c, c + 100, c + 200, c + 300, c + 400]"

definition spec_pitches :: "real list" where
  "spec_pitches = [- 20, - 20 + 80 / 9, - 20 + 160 / 9, - 20 + 240 / 9, - 20 + 320 / 9,
                   - 20 + 400 / 9, - 20 + 480 / 9, - 20 + 560 / 9, - 20 + 640 / 9, 60]"

definition spec_candidates :: "real list \<Rightarrow> ThrowType \<Rightarrow> throw_args list" where
  "spec_candidates target_pos throw_type =
     concat (map (\<lambda>x. concat (map (\<lambda>y. map (\<lambda>pitch.
        ([x, y, 72], pitch, degrees (arctan2 (target_pos ! 1 - y) (target_pos ! 0 - x)),
         throw_type, Finite 2)) spec_pitches) (spec_axis (target_pos ! 1)))) (spec_axis (target_pos ! 0)))"

section \<open>Concrete worlds and engines\<close>

text \<open>
  The world after \<open>load_test_scene\<close>: a plane and four boxes, ids 0 to 4, and no dynamic
  body. \<open>still_engine\<close> is a stub of the library that never raises and brings every
  dynamic body to rest at the origin with its first step; \<open>step_fault_engine\<close> differs in that the sixth call of the library
  (the first \<open>stepSimulation\<close> of a throw started in a fresh world) raises.
\<close>

definition test_world :: world where
  "test_world = \<lparr> map_bodies = [0, 1, 2, 3, 4], dynamic_bodies = [], col_shapes = [],
                  vis_shapes = 0, calls = 0, steps = 0, created = 0 \<rparr>"

definition still_engine :: engine where
  "still_engine = \<lparr> advance = (\<lambda>bs i b. b\<lparr>b_pos := (0, 0, 0), b_vel := (0, 0, 0)\<rparr>),
                    faulty = (\<lambda>k. False) \<rparr>"

definition step_fault_engine :: engine where
  "step_fault_engine = \<lparr> advance = (\<lambda>bs i b. b\<lparr>b_pos := (0, 0, 0), b_vel := (0, 0, 0)\<rparr>),
                         faulty = (\<lambda>k. k = 5) \<rparr>"

text \<open>A configuration whose speed table has no entry for \<open>RIGHT_CLICK\<close>.\<close>

definition two_speed_config :: PhysicsConfig where
  "two_speed_config = CS2_PHYSICS\<lparr>throw_speeds := [LEFT_CLICK \<mapsto> 1000, BOTH_CLICKS \<mapsto> 600]\<rparr>"

section \<open>Rounding to a double\<close>

lemma pow2_powr: "pow2 k = 2 powr (of_int k)"
  by (simp add: pow2_def powr_realpow[symmetric] powr_minus divide_inverse)

lemma pow2_add: "pow2 (a + b) = pow2 a * pow2 b"
  by (simp add: pow2_powr powr_add)

lemma pow2_mono: "a \<le> b \<Longrightarrow> pow2 a \<le> pow2 b"
  by (simp add: pow2_powr)

lemma pow2_strict_mono: "a < b \<Longrightarrow> pow2 a < pow2 b"
  by (simp add: pow2_powr)

lemma pow2_pos: "0 < pow2 k"
  by (simp add: pow2_def)

lemma ilog2_eq: "pow2 e \<le> \<bar>x\<bar> \<Longrightarrow> \<bar>x\<bar> < pow2 (e + 1) \<Longrightarrow> ilog2 x = e"
proof -
  assume a: "pow2 e \<le> \<bar>x\<bar>" and b: "\<bar>x\<bar> < pow2 (e + 1)"
  have p: "0 < \<bar>x\<bar>" using a pow2_pos[of e] by linarith
  have "of_int e \<le> log 2 \<bar>x\<bar>"
    using a p by (simp add: pow2_powr le_log_iff)
  moreover have "log 2 \<bar>x\<bar> < of_int e + 1"
    using b p by (simp add: pow2_powr log_less_iff)
  ultimately show ?thesis
    unfolding ilog2_def by (intro floor_unique) simp_all
qed

lemma rne_bounds: "of_int (rne z) \<le> z + 1 / 2" "z - 1 / 2 \<le> of_int (rne z)"
proof -
  have f: "of_int \<lfloor>z\<rfloor> \<le> z" "z < of_int \<lfloor>z\<rfloor> + 1" by linarith+
  show "of_int (rne z) \<le> z + 1 / 2"
  proof (cases "z - of_int \<lfloor>z\<rfloor> < 1 / 2")
    case True
    then show ?thesis using f by (simp add: rne_def Let_def; linarith?)
  next
    case False
    then show ?thesis using f by (simp add: rne_def Let_def; linarith?)
  qed
  show "z - 1 / 2 \<le> of_int (rne z)"
  proof (cases "z - of_int \<lfloor>z\<rfloor> < 1 / 2")
    case True
    then show ?thesis using f by (simp add: rne_def Let_def; linarith?)
  next
    case False
    then show ?thesis using f by (simp add: rne_def Let_def; linarith?)
  qed
qed

lemma rne_nonpos: "z \<le> 0 \<Longrightarrow> rne z \<le> 0"
proof -
  assume "z \<le> 0"
  then have "of_int (rne z) \<le> (1/2 :: real)" using rne_bounds(1)[of z] by linarith
  then have "rne z < 1" by linarith
  then show ?thesis by simp
qed

lemma rne_nonneg: "0 \<le> z \<Longrightarrow> 0 \<le> rne z"
proof -
  assume "0 \<le> z"
  then have "- (1/2 :: real) \<le> of_int (rne z)" using rne_bounds(2)[of z] by linarith
  then have "-1 < rne z" by linarith
  then show ?thesis by simp
qed

lemma round_double_nonpos:
  "x \<le> 0 \<Longrightarrow> round_double x = NegInf \<or> (\<exists>y. y \<le> 0 \<and> round_double x = Finite y)"
proof -
  assume a: "x \<le> 0"
  show ?thesis
  proof (cases "x = 0")
    case True
    then show ?thesis by (simp add: round_double_def)
  next
    case False
    let ?e = "max (ilog2 x) (- 1022)"
    have "x / pow2 (?e - 52) \<le> 0" using a pow2_pos[of "?e - 52"] by (simp add: divide_nonpos_pos)
    then have "rne (x / pow2 (?e - 52)) \<le> 0" by (rule rne_nonpos)
    then have "of_int (rne (x / pow2 (?e - 52))) * pow2 (?e - 52) \<le> 0"
      using pow2_pos[of "?e - 52"] by (simp add: mult_le_0_iff)
    then show ?thesis using a False by (simp add: round_double_def Let_def)
  qed
qed

lemma round_double_normal:
  assumes lo: "pow2 e \<le> \<bar>x\<bar>" and hi: "\<bar>x\<bar> < pow2 (e + 1)"
    and e1: "- 1022 \<le> e" and e2: "e \<le> 1022"
  shows "round_double x = Finite (of_int (rne (x / pow2 (e - 52))) * pow2 (e - 52))"
proof -
  have x0: "x \<noteq> 0" using lo pow2_pos[of e] by auto
  have il: "ilog2 x = e" by (rule ilog2_eq[OF lo hi])
  have m: "max (ilog2 x) (- 1022) = e" using il e1 by simp
  let ?u = "pow2 (e - 52)"
  let ?z = "x / ?u"
  have up: "0 < ?u" by (rule pow2_pos)
  have "e + 1 = 53 + (e - 52)" by simp
  then have pe: "pow2 (e + 1) = pow2 53 * ?u"
    by (simp only: pow2_add)
  have "\<bar>?z\<bar> < pow2 53"
    using hi up by (simp add: pe abs_divide pos_divide_less_eq abs_of_pos)
  then have zb: "?z < pow2 53" "- pow2 53 < ?z" by linarith+
  have p53: "pow2 53 = real_of_int (2 ^ 53)" by (simp add: pow2_def)
  have "real_of_int (rne ?z) < real_of_int (2 ^ 53 + 1)"
    using rne_bounds(1)[of ?z] zb(1) unfolding p53 by simp
  then have u1: "rne ?z \<le> 2 ^ 53" by (simp only: of_int_less_iff)
  have "real_of_int (- (2 ^ 53) - 1) < real_of_int (rne ?z)"
    using rne_bounds(2)[of ?z] zb(2) unfolding p53 by simp
  then have u2: "- (2 ^ 53) \<le> rne ?z" by (simp only: of_int_less_iff)
  have "\<bar>rne ?z\<bar> \<le> 2 ^ 53" using u1 u2 by simp
  then have "real_of_int \<bar>rne ?z\<bar> \<le> real_of_int (2 ^ 53)" by (simp only: of_int_le_iff)
  then have "\<bar>of_int (rne ?z) :: real\<bar> \<le> pow2 53" unfolding p53 by simp
  then have "\<bar>of_int (rne ?z) * ?u\<bar> \<le> pow2 53 * ?u"
    using up by (simp add: abs_mult abs_of_pos)
  also have "\<dots> = pow2 (e + 1)" by (simp add: pe)
  also have "\<dots> \<le> pow2 1023" using e2 by (intro pow2_mono) simp
  also have "\<dots> < pow2 1024" by (intro pow2_strict_mono) simp
  finally have nb: "\<not> pow2 1024 \<le> \<bar>of_int (rne ?z) * ?u\<bar>" by simp
  show ?thesis
    using x0 nb by (simp add: round_double_def m Let_def)
qed

lemma ilog2_bounds:
  assumes "x \<noteq> 0"
  shows "pow2 (ilog2 x) \<le> \<bar>x\<bar>" and "\<bar>x\<bar> < pow2 (ilog2 x + 1)"
proof -
  have p: "0 < \<bar>x\<bar>" using assms by simp
  have x: "2 powr (log 2 \<bar>x\<bar>) = \<bar>x\<bar>" using p by simp
  have "2 powr (of_int \<lfloor>log 2 \<bar>x\<bar>\<rfloor>) \<le> 2 powr (log 2 \<bar>x\<bar>)"
    by (intro powr_mono) simp_all
  then show "pow2 (ilog2 x) \<le> \<bar>x\<bar>"
    unfolding x by (simp add: pow2_powr ilog2_def)
  have "log 2 \<bar>x\<bar> < of_int (\<lfloor>log 2 \<bar>x\<bar>\<rfloor> + 1)" by simp
  then have "2 powr (log 2 \<bar>x\<bar>) < 2 powr (of_int (\<lfloor>log 2 \<bar>x\<bar>\<rfloor> + 1))"
    by (intro powr_less_mono) simp_all
  then show "\<bar>x\<bar> < pow2 (ilog2 x + 1)"
    unfolding x by (simp add: pow2_powr ilog2_def)
qed

lemma rne_of_int: "rne (of_int m) = m"
  by (simp add: rne_def)

lemma round_double_of_int:
  assumes b: "\<bar>k\<bar> < 2 ^ 53"
  shows "round_double (of_int k) = Finite (of_int k)"
proof (cases "k = 0")
  case True
  then show ?thesis by (simp add: round_double_def)
next
  case False
  define e where "e = ilog2 (of_int k)"
  have x0: "(of_int k :: real) \<noteq> 0" using False by simp
  have lo: "pow2 e \<le> \<bar>of_int k\<bar>" and hi: "\<bar>of_int k :: real\<bar> < pow2 (e + 1)"
    unfolding e_def using ilog2_bounds[OF x0] by simp_all
  have "1 \<le> \<bar>k\<bar>" using False by simp
  then have "(1::real) \<le> \<bar>of_int k\<bar>" by (simp only: of_int_abs[symmetric] of_int_1_le_iff)
  then have "pow2 0 < pow2 (e + 1)" using hi by (simp add: pow2_def)
  then have e0: "0 \<le> e"
    using pow2_mono[of "e + 1" 0] by (cases "0 \<le> e") auto
  have "real_of_int \<bar>k\<bar> < real_of_int (2 ^ 53)" using b by (simp only: of_int_less_iff)
  then have "\<bar>of_int k :: real\<bar> < pow2 53" by (simp add: pow2_def)
  then have "pow2 e < pow2 53" using lo by linarith
  then have e52: "e \<le> 52"
    using pow2_mono[of 53 e] by (cases "e \<le> 52") auto
  have u: "pow2 (e - 52) = 1 / 2 ^ nat (52 - e)"
    using e52 by (cases "e = 52") (simp_all add: pow2_def)
  have z: "of_int k / pow2 (e - 52) = real_of_int (k * 2 ^ nat (52 - e))"
    by (simp add: u)
  have "round_double (of_int k) =
      Finite (of_int (rne (of_int k / pow2 (e - 52))) * pow2 (e - 52))"
    using lo hi e0 e52 by (intro round_double_normal) simp_all
  also have "\<dots> = Finite (of_int k)"
    unfolding z rne_of_int by (simp add: u)
  finally show ?thesis .
qed

lemma round_double_numeral:
  "numeral n < (9007199254740992::int) \<Longrightarrow> round_double (numeral n) = Finite (numeral n)"
  "numeral n < (9007199254740992::int) \<Longrightarrow> round_double (- numeral n) = Finite (- numeral n)"
  using round_double_of_int[of "numeral n"] round_double_of_int[of "- numeral n"] by simp_all

lemma rne_abs_le: "\<bar>real_of_int (rne z)\<bar> \<le> 2 * \<bar>z\<bar>"
proof (cases "\<bar>z\<bar> < 1 / 2")
  case True
  then have "\<lfloor>z\<rfloor> = 0 \<or> \<lfloor>z\<rfloor> = - 1" by linarith
  then have "rne z = 0"
    using True by (auto simp: rne_def Let_def)
  then show ?thesis by simp
next
  case False
  have "\<bar>real_of_int (rne z)\<bar> \<le> \<bar>z\<bar> + 1 / 2"
    using rne_bounds[of z] by linarith
  then show ?thesis using False by linarith
qed

lemma round_double_finite:
  assumes "\<bar>x\<bar> < pow2 1023"
  shows "\<exists>y. round_double x = Finite y \<and> \<bar>y\<bar> \<le> 2 * \<bar>x\<bar>"
proof (cases "x = 0")
  case True
  then show ?thesis by (simp add: round_double_def)
next
  case False
  define u where "u = pow2 (max (ilog2 x) (- 1022) - 52)"
  define y where "y = of_int (rne (x / u)) * u"
  have up: "0 < u" unfolding u_def by (rule pow2_pos)
  have "\<bar>y\<bar> = \<bar>real_of_int (rne (x / u))\<bar> * u"
    using up by (simp add: y_def abs_mult)
  also have "\<dots> \<le> 2 * \<bar>x / u\<bar> * u"
    using rne_abs_le[of "x / u"] up by (intro mult_right_mono) simp_all
  also have "\<dots> = 2 * \<bar>x\<bar>" using up by (simp add: abs_divide)
  finally have yb: "\<bar>y\<bar> \<le> 2 * \<bar>x\<bar>" .
  have "pow2 1024 = 2 * pow2 1023" by (simp add: pow2_def)
  then have "\<bar>y\<bar> < pow2 1024" using yb assms by linarith
  then have "round_double x = Finite y"
    using False by (simp add: round_double_def Let_def y_def u_def)
  then show ?thesis using yb by blast
qed

section \<open>The step count of line 186\<close>

lemma as_double_simps:
  "as_double PosInf = PosInf" "as_double NegInf = NegInf" "as_double NaN = NaN"
  "as_double (Finite x) = round_double x"
  by (simp_all add: as_double_def)

lemma round_double_zero: "round_double 0 = Finite 0"
  by (simp add: round_double_def)

lemma double_time_step:
  "round_double (time_step CS2_PHYSICS) = Finite (4803839602528529 / 576460752303423488)"
  unfolding CS2_PHYSICS_def
  by (simp, subst round_double_normal[where e = "- 7"]) (simp_all add: pow2_def rne_def Let_def)

lemma num_steps_finite:
  assumes "round_double t = Finite td"
    and "round_double (td / (4803839602528529 / 576460752303423488)) = Finite q"
  shows "num_steps CS2_PHYSICS (Finite t) = Inr (py_int q)"
  using assms
  by (simp add: num_steps_def float_div_def as_double_simps double_time_step int_of_float_def)

lemma num_steps_zero: "num_steps CS2_PHYSICS (Finite 0) = Inr 0"
  by (rule num_steps_finite[where td = 0 and q = 0, simplified py_int_def, simplified])
     (simp_all add: round_double_zero)

lemma round_double_1: "round_double 1 = Finite 1"
  by (subst round_double_normal[where e = 0]) (simp_all add: pow2_def rne_def Let_def)

lemma round_double_2: "round_double 2 = Finite 2"
  by (subst round_double_normal[where e = 1]) (simp_all add: pow2_def rne_def Let_def)

lemma round_double_3: "round_double 3 = Finite 3"
  by (subst round_double_normal[where e = 1]) (simp_all add: pow2_def rne_def Let_def)

lemma num_steps_one: "num_steps CS2_PHYSICS (Finite 1) = Inr 120"
proof -
  have q: "round_double (1 / (4803839602528529 / 576460752303423488)) = Finite 120"
    by (subst round_double_normal[where e = 6]) (simp_all add: pow2_def rne_def Let_def)
  show ?thesis
    using num_steps_finite[OF round_double_1 q] by (simp add: py_int_def)
qed

lemma num_steps_two: "num_steps CS2_PHYSICS (Finite 2) = Inr 240"
proof -
  have q: "round_double (2 / (4803839602528529 / 576460752303423488)) = Finite 240"
    by (subst round_double_normal[where e = 7]) (simp_all add: pow2_def rne_def Let_def)
  show ?thesis
    using num_steps_finite[OF round_double_2 q] by (simp add: py_int_def)
qed

lemma num_steps_three: "num_steps CS2_PHYSICS (Finite 3) = Inr 360"
proof -
  have q: "round_double (3 / (4803839602528529 / 576460752303423488)) = Finite 360"
    by (subst round_double_normal[where e = 8]) (simp_all add: pow2_def rne_def Let_def)
  show ?thesis
    using num_steps_finite[OF round_double_3 q] by (simp add: py_int_def)
qed

lemma num_steps_one_step: "num_steps CS2_PHYSICS (Finite (1 / 120)) = Inr 1"
proof -
  have t: "round_double (1 / 120) = Finite (4803839602528529 / 576460752303423488)"
    using double_time_step by (simp add: CS2_PHYSICS_def)
  have q: "round_double ((4803839602528529 / 576460752303423488)
             / (4803839602528529 / 576460752303423488)) = Finite 1"
    by (simp add: round_double_1)
  show ?thesis
    using num_steps_finite[OF t q] by (simp add: py_int_def)
qed

lemma double_hundredth: "round_double (1 / 100) = Finite (5764607523034235 / 576460752303423488)"
  by (subst round_double_normal[where e = "- 7"]) (simp_all add: pow2_def rne_def Let_def)

lemma quotient_hundredth:
  "round_double (5764607523034235 / 576460752303423488 / (4803839602528529 / 576460752303423488))
     = Finite (5404319552844595 / 4503599627370496)"
  by (subst round_double_normal[where e = 0]) (simp_all add: pow2_def rne_def Let_def)

lemma num_steps_hundredth: "num_steps CS2_PHYSICS (Finite (1 / 100)) = Inr 1"
  using num_steps_finite[OF double_hundredth quotient_hundredth] by (simp add: py_int_def)

lemma num_steps_inf: "num_steps CS2_PHYSICS PosInf = Inl OverflowError"
  using double_time_step
  by (simp add: num_steps_def float_div_def as_double_simps int_of_float_def)

lemma below_pow2_1023: "\<bar>x\<bar> \<le> 10 ^ 303 \<Longrightarrow> \<bar>x\<bar> < pow2 1023"
  by (simp add: pow2_def)

lemma num_steps_total:
  assumes t: "\<bar>t\<bar> \<le> 10 ^ 300"
  shows "\<exists>n. num_steps CS2_PHYSICS (Finite t) = Inr n"
proof -
  have "\<bar>t\<bar> \<le> 10 ^ 303" using t by simp
  then have "\<bar>t\<bar> < pow2 1023" by (rule below_pow2_1023)
  from round_double_finite[OF this] obtain td where
    td: "round_double t = Finite td" "\<bar>td\<bar> \<le> 2 * \<bar>t\<bar>" by blast
  have "\<bar>td / (4803839602528529 / 576460752303423488)\<bar> \<le> 121 * \<bar>td\<bar>"
    by (simp add: abs_divide)
  then have "\<bar>td / (4803839602528529 / 576460752303423488)\<bar> \<le> 10 ^ 303"
    using td(2) t by simp
  then have "\<bar>td / (4803839602528529 / 576460752303423488)\<bar> < pow2 1023"
    by (rule below_pow2_1023)
  from round_double_finite[OF this] obtain q where
    q: "round_double (td / (4803839602528529 / 576460752303423488)) = Finite q" by blast
  from num_steps_finite[OF td(1) q] show ?thesis by blast
qed

lemma num_steps_neg_inf: "num_steps CS2_PHYSICS NegInf = Inl OverflowError"
  using double_time_step
  by (simp add: num_steps_def float_div_def as_double_simps int_of_float_def)

lemma float_le_zero_values: "float_le_zero (Finite 0)" "float_le_zero NegInf"
  by (simp_all add: float_le_zero_def as_double_simps round_double_zero)

lemma time_step_pos: "(0::real) < 4803839602528529 / 576460752303423488"
  by simp

lemma num_steps_nonpositive:
  assumes "float_le_zero t"
  shows "num_steps CS2_PHYSICS t = Inl OverflowError
         \<or> (\<exists>n. n \<le> 0 \<and> num_steps CS2_PHYSICS t = Inr n)"
proof (cases "as_double t")
  case (Finite x)
  then have x: "x \<le> 0" using assms by (simp add: float_le_zero_def)
  have d: "x / (4803839602528529 / 576460752303423488) \<le> 0"
    using x by (simp add: divide_le_0_iff)
  have n: "num_steps CS2_PHYSICS t =
      int_of_float (round_double (x / (4803839602528529 / 576460752303423488)))"
    using Finite by (simp add: num_steps_def float_div_def as_double_simps double_time_step)
  from round_double_nonpos[OF d] show ?thesis
  proof
    assume i: "round_double (x / (4803839602528529 / 576460752303423488)) = NegInf"
    show ?thesis unfolding n i by (simp add: int_of_float_def)
  next
    assume "\<exists>y\<le>0. round_double (x / (4803839602528529 / 576460752303423488)) = Finite y"
    then obtain y where y: "y \<le> 0"
      "round_double (x / (4803839602528529 / 576460752303423488)) = Finite y" by blast
    have "py_int y \<le> 0" using y(1) by (auto simp: py_int_def ceiling_le_iff)
    then show ?thesis unfolding n y(2) by (simp add: int_of_float_def)
  qed
next
  case PosInf
  then show ?thesis using assms by (simp add: float_le_zero_def)
next
  case NegInf
  then show ?thesis
    by (simp add: num_steps_def float_div_def as_double_simps double_time_step int_of_float_def)
next
  case NaN
  then show ?thesis using assms by (simp add: float_le_zero_def)
qed

lemma loop_bound_nonpositive: "float_le_zero t \<Longrightarrow> loop_bound CS2_PHYSICS t = 0"
  using num_steps_nonpositive[of t] by (auto simp: loop_bound_def)

lemma loop_bound_floor:
  "float_div t (Finite (time_step cfg)) = Inr (Finite q) \<Longrightarrow> loop_bound cfg t = nat \<lfloor>q\<rfloor>"
  by (simp add: loop_bound_def num_steps_def int_of_float_def py_int_def)

lemma loop_bound_values:
  "loop_bound CS2_PHYSICS (Finite 0) = 0"
  "loop_bound CS2_PHYSICS (Finite (1 / 120)) = 1"
  "loop_bound CS2_PHYSICS (Finite (1 / 100)) = 1"
  "loop_bound CS2_PHYSICS (Finite 1) = 120"
  "loop_bound CS2_PHYSICS (Finite 2) = 240"
  "loop_bound CS2_PHYSICS (Finite 3) = 360"
  "loop_bound CS2_PHYSICS PosInf = 0"
  by (simp_all add: loop_bound_def num_steps_zero num_steps_one_step num_steps_hundredth
        num_steps_one num_steps_two num_steps_three num_steps_inf)

section \<open>The axes of the grid\<close>

lemma upt_10: "[0..<10] = [0, 1, 2, 3, 4, 5, 6, 7, 8, 9]"
  by (simp add: upt_rec)

lemma upt_11: "[0..<11] = [0, 1, 2, 3, 4, 5, 6, 7, 8, 9, 10]"
  by (simp add: upt_rec)

lemmas grid_axis_defs = grid_axis_def search_radius_def grid_step_def as_double_simps
  arange_def arange_element_def fsub_def float_value_def Let_def

lemma grid_axis_origin:
  "grid_axis 0 = Inr [- 500, - 400, - 300, - 200, - 100, 0, 100, 200, 300, 400]"
  by (simp add: grid_axis_defs round_double_zero round_double_numeral upt_10)

lemma grid_axis_500:
  "grid_axis 500 = Inr [0, 100, 200, 300, 400, 500, 600, 700, 800, 900]"
  by (simp add: grid_axis_defs round_double_zero round_double_numeral upt_10)

lemma rd_c: "round_double (3247 / 5) = Finite (5712182808621875 / 8796093022208)"
  by (subst round_double_normal[where e = 9]) (simp_all add: pow2_def rne_def Let_def)

lemma rd_start: "round_double (1314136297517875 / 8796093022208) = Finite (1314136297517875 / 8796093022208)"
  by (subst round_double_normal[where e = 7]) (simp_all add: pow2_def rne_def Let_def)

lemma rd_stop: "round_double (10110229319725875 / 8796093022208) = Finite (2527557329931469 / 2199023255552)"
  by (subst round_double_normal[where e = 10]) (simp_all add: pow2_def rne_def Let_def)

lemma rd_diff: "round_double (8796093022208001 / 8796093022208) = Finite (8796093022208001 / 8796093022208)"
  by (subst round_double_normal[where e = 9]) (simp_all add: pow2_def rne_def Let_def)

lemma rd_q: "round_double (8796093022208001 / 879609302220800) = Finite (5629499534213121 / 562949953421312)"
  by (subst round_double_normal[where e = 3]) (simp_all add: pow2_def rne_def Let_def)

lemma rd_el1: "round_double (2193745599738675 / 8796093022208) = Finite (2193745599738675 / 8796093022208)"
  by (subst round_double_normal[where e = 7]) (simp_all add: pow2_def rne_def Let_def)

lemma rd_delta: "round_double (100) = Finite (100)"
  by (subst round_double_normal[where e = 6]) (simp_all add: pow2_def rne_def Let_def)

lemma rd_el2: "round_double (3073354901959475 / 8796093022208) = Finite (3073354901959475 / 8796093022208)"
  by (subst round_double_normal[where e = 8]) (simp_all add: pow2_def rne_def Let_def)

lemma rd_el3: "round_double (3952964204180275 / 8796093022208) = Finite (3952964204180275 / 8796093022208)"
  by (subst round_double_normal[where e = 8]) (simp_all add: pow2_def rne_def Let_def)

lemma rd_el4: "round_double (4832573506401075 / 8796093022208) = Finite (4832573506401075 / 8796093022208)"
  by (subst round_double_normal[where e = 9]) (simp_all add: pow2_def rne_def Let_def)

lemma rd_el5: "round_double (5712182808621875 / 8796093022208) = Finite (5712182808621875 / 8796093022208)"
  by (subst round_double_normal[where e = 9]) (simp_all add: pow2_def rne_def Let_def)

lemma rd_el6: "round_double (6591792110842675 / 8796093022208) = Finite (6591792110842675 / 8796093022208)"
  by (subst round_double_normal[where e = 9]) (simp_all add: pow2_def rne_def Let_def)

lemma rd_el7: "round_double (7471401413063475 / 8796093022208) = Finite (7471401413063475 / 8796093022208)"
  by (subst round_double_normal[where e = 9]) (simp_all add: pow2_def rne_def Let_def)

lemma rd_el8: "round_double (8351010715284275 / 8796093022208) = Finite (8351010715284275 / 8796093022208)"
  by (subst round_double_normal[where e = 9]) (simp_all add: pow2_def rne_def Let_def)

lemma rd_el9: "round_double (9230620017505075 / 8796093022208) = Finite (2307655004376269 / 2199023255552)"
  by (subst round_double_normal[where e = 10]) (simp_all add: pow2_def rne_def Let_def)

lemma rd_el10: "round_double (10110229319725875 / 8796093022208) = Finite (2527557329931469 / 2199023255552)"
  by (subst round_double_normal[where e = 10]) (simp_all add: pow2_def rne_def Let_def)


lemma grid_axis_6494:
  "grid_axis (6494 / 10) = Inr [1314136297517875 / 8796093022208, 2193745599738675 / 8796093022208, 3073354901959475 / 8796093022208, 3952964204180275 / 8796093022208, 4832573506401075 / 8796093022208, 5712182808621875 / 8796093022208, 6591792110842675 / 8796093022208, 7471401413063475 / 8796093022208, 8351010715284275 / 8796093022208, 2307655004376269 / 2199023255552, 2527557329931469 / 2199023255552]"
  by (simp add: grid_axis_defs round_double_numeral upt_11 rd_c rd_start rd_stop rd_diff rd_q rd_el1 rd_delta rd_el2 rd_el3 rd_el4 rd_el5 rd_el6 rd_el7 rd_el8 rd_el9 rd_el10)

lemma below_pow2_1023_20: "\<bar>x\<bar> \<le> 10 ^ 20 \<Longrightarrow> \<bar>x\<bar> < pow2 1023"
  by (simp add: pow2_def)

lemma fadd_finite:
  assumes "\<bar>x + y\<bar> \<le> b" and "b \<le> 10 ^ 20"
  shows "\<exists>z. fadd (Finite x) (Finite y) = Finite z \<and> \<bar>z\<bar> \<le> 2 * b"
proof -
  have "\<bar>x + y\<bar> \<le> 10 ^ 20" using assms by linarith
  then have "\<bar>x + y\<bar> < pow2 1023" by (rule below_pow2_1023_20)
  from round_double_finite[OF this] obtain z where
    "round_double (x + y) = Finite z" "\<bar>z\<bar> \<le> 2 * \<bar>x + y\<bar>" by blast
  then show ?thesis using assms(1) by (intro exI[of _ z]) simp
qed

lemma grid_axis_total:
  assumes c: "\<bar>c\<bar> \<le> 10 ^ 18"
  shows "\<exists>xs. grid_axis c = Inr xs"
proof -
  have "\<bar>c\<bar> \<le> 10 ^ 20" using c by simp
  then have "\<bar>c\<bar> < pow2 1023" by (rule below_pow2_1023_20)
  from round_double_finite[OF this] obtain c' where
    c': "round_double c = Finite c'" "\<bar>c'\<bar> \<le> 2 * \<bar>c\<bar>" by blast
  have e1: "as_double (Finite c) = Finite c'" by (simp add: as_double_simps c'(1))
  have e2: "as_double (Finite search_radius) = Finite 500"
    by (simp add: as_double_simps search_radius_def round_double_numeral)
  have e3: "as_double (Finite grid_step) = Finite 100"
    by (simp add: as_double_simps grid_step_def round_double_numeral)
  have "\<bar>c' + - 500\<bar> \<le> 3 * 10 ^ 18" using c'(2) c by simp
  from fadd_finite[OF this] obtain a where
    a0: "fadd (Finite c') (Finite (- 500)) = Finite a" and ab: "\<bar>a\<bar> \<le> 2 * (3 * 10 ^ 18)" by auto
  have a: "fsub (Finite c') (Finite 500) = Finite a" using a0 by (simp add: fsub_def)
  have "\<bar>c' + 500\<bar> \<le> 3 * 10 ^ 18" using c'(2) c by simp
  from fadd_finite[OF this] obtain b where
    b: "fadd (Finite c') (Finite 500) = Finite b" and bb: "\<bar>b\<bar> \<le> 2 * (3 * 10 ^ 18)" by auto
  have "\<bar>b + - a\<bar> \<le> 12 * 10 ^ 18" using ab bb by simp
  from fadd_finite[OF this] obtain d where
    d0: "fadd (Finite b) (Finite (- a)) = Finite d" and db: "\<bar>d\<bar> \<le> 2 * (12 * 10 ^ 18)" by auto
  have d: "fsub (Finite b) (Finite a) = Finite d" using d0 by (simp add: fsub_def)
  have "\<bar>d / 100\<bar> \<le> 10 ^ 20" using db by simp
  then have "\<bar>d / 100\<bar> < pow2 1023" by (rule below_pow2_1023_20)
  from round_double_finite[OF this] obtain q where
    q: "round_double (d / 100) = Finite q" "\<bar>q\<bar> \<le> 2 * \<bar>d / 100\<bar>" by blast
  have qb: "\<bar>q\<bar> \<le> 10 ^ 18" using q(2) db by simp
  have "q \<le> real_of_int (10 ^ 18)" using qb by simp
  then have u: "\<lceil>q\<rceil> \<le> 10 ^ 18" by (simp only: ceiling_le_iff)
  have "real_of_int (- (10 ^ 18)) \<le> q" using qb by simp
  then have "- (10 ^ 18) \<le> \<lceil>q\<rceil>" by (simp only: le_ceiling_iff)
  then have rg: "- (2 ^ 63) \<le> \<lceil>q\<rceil> \<and> \<lceil>q\<rceil> < 2 ^ 63" using u by simp
  have fd: "fdiv (Finite d) (Finite 100) = Finite q" by (simp add: q(1))
  show ?thesis
    unfolding grid_axis_def Let_def e1 e2 e3 a b arange_def d fd
    using rg by simp
qed

lemma grid_calls_shape:
  "grid_calls target_pos throw_type = Inr cs \<Longrightarrow>
     \<forall>c\<in>set cs. length (fst c) = 3 \<and> snd (snd (snd (snd c))) = Finite 2"
  by (auto simp: grid_calls_def Let_def split: sum.splits if_splits)

lemma grid_calls_count:
  assumes "length target_pos = 3"
    and "grid_axis (target_pos ! 0) = Inr xs" and "grid_axis (target_pos ! 1) = Inr ys"
  shows "\<exists>cs. grid_calls target_pos throw_type = Inr cs \<and> length cs = length xs * length ys * 10"
proof -
  have "sum_list (map (\<lambda>x. k) zs) = length zs * k" for zs :: "real list" and k :: nat
    by (induction zs) simp_all
  then show ?thesis
    using assms
    by (auto simp: grid_calls_def Let_def length_concat comp_def linspace_def)
qed

lemma grid_calls_total:
  assumes "length target_pos = 3"
    and "\<bar>target_pos ! 0\<bar> \<le> 10 ^ 18" and "\<bar>target_pos ! 1\<bar> \<le> 10 ^ 18"
  shows "\<exists>cs. grid_calls target_pos throw_type = Inr cs"
proof -
  from grid_axis_total[OF assms(2)] obtain xs where x: "grid_axis (target_pos ! 0) = Inr xs" ..
  from grid_axis_total[OF assms(3)] obtain ys where y: "grid_axis (target_pos ! 1) = Inr ys" ..
  from grid_calls_count[OF assms(1) x y] show ?thesis by blast
qed

lemma grid_calls_origin: "\<exists>cs. grid_calls [0, 0, 0] throw_type = Inr cs \<and> length cs = 1000"
  using grid_calls_count[of "[0, 0, 0]", OF _ _ _, of _ _ throw_type]
  by (simp add: grid_axis_origin)

lemma grid_calls_6494:
  "\<exists>cs. grid_calls [6494 / 10, 500, 50] throw_type = Inr cs \<and> length cs = 1100"
proof -
  have l: "length [6494 / 10, 500, 50 :: real] = 3" by simp
  obtain xs where x: "grid_axis ([6494 / 10, 500, 50] ! 0) = Inr xs" "length xs = 11"
    unfolding nth_Cons_0 grid_axis_6494 by simp
  obtain ys where y: "grid_axis ([6494 / 10, 500, 50] ! 1) = Inr ys" "length ys = 10"
    by (simp add: grid_axis_500)
  from grid_calls_count[OF l x(1) y(1), of throw_type] show ?thesis
    unfolding x(2) y(2) by simp
qed

section \<open>The world operations when no call raises\<close>

lemma foldr_max_ge: "x \<in> set xs \<Longrightarrow> x \<le> foldr max xs (0::nat)"
  by (induction xs) auto

lemma fresh_id_not_dynamic: "fresh_id w \<notin> set (body_ids w)"
proof
  assume "fresh_id w \<in> set (body_ids w)"
  then have "fresh_id w \<le> foldr max (map_bodies w @ body_ids w) 0"
    by (intro foldr_max_ge) simp
  then show False by (simp add: fresh_id_def)
qed

lemma fresh_id_not_static: "fresh_id w \<notin> set (map_bodies w)"
proof
  assume "fresh_id w \<in> set (map_bodies w)"
  then have "fresh_id w \<le> foldr max (map_bodies w @ body_ids w) 0"
    by (intro foldr_max_ge) simp
  then show False by (simp add: fresh_id_def)
qed

lemma convert_bullet_vec3:
  "convert_bullet_to_cs2 cfg (list_of_vec3 v) =
     Inr [fst v * units_per_meter cfg, snd (snd v) * units_per_meter cfg,
          fst (snd v) * units_per_meter cfg]"
  by (cases v) (simp add: convert_bullet_to_cs2_def list_of_vec3_def Let_def)

lemma map_of_step_bodies:
  "map_of (step_bodies eng bs) g = map_option (advance eng bs g) (map_of bs g)"
proof -
  have "map_of (map (\<lambda>(j, b). (j, f j b)) cs) g = map_option (f g) (map_of cs g)" for f cs
    by (induction cs) auto
  then show ?thesis by (simp add: step_bodies_def)
qed

lemma ids_step_bodies: "map fst (step_bodies eng bs) = map fst bs"
  by (simp add: step_bodies_def case_prod_unfold comp_def)

lemma ids_funpow_step_bodies: "map fst ((step_bodies eng ^^ k) bs) = map fst bs"
  by (induction k) (simp_all add: ids_step_bodies)

lemma map_of_ids_Some: "g \<in> set (map fst bs) \<Longrightarrow> \<exists>b. map_of bs g = Some b"
  by (metis domD dom_map_of_conv_image_fst set_map)

lemma map_of_in_ids: "map_of bs g = Some b \<Longrightarrow> g \<in> set (map fst bs)"
  by (metis domI dom_map_of_conv_image_fst set_map)

lemma sim_loop_nofault:
  assumes nf: "faulty eng = (\<lambda>k. False)"
  shows "g \<in> set (map fst (dynamic_bodies w)) \<Longrightarrow>
     \<exists>lv' w'. sim_loop eng cfg g is lv w = (Inr lv', w')
       \<and> steps w' = steps w + loop_len eng cfg g (dynamic_bodies w) is
       \<and> dynamic_bodies w' = (step_bodies eng ^^ loop_len eng cfg g (dynamic_bodies w) is)
                                (dynamic_bodies w)
       \<and> map_bodies w' = map_bodies w
       \<and> created w' = created w
       \<and> (is = [] \<longrightarrow> step lv' = step lv) \<and> (is \<noteq> [] \<longrightarrow> step lv' \<noteq> None)"
proof (induction "is" arbitrary: lv w)
  case Nil
  then show ?case by simp
next
  case (Cons i rest)
  let ?bs' = "step_bodies eng (dynamic_bodies w)"
  let ?w1 = "tick (w\<lparr>dynamic_bodies := ?bs', steps := Suc (steps w)\<rparr>)"
  let ?w3 = "tick (tick ?w1)"
  have g': "g \<in> set (map fst ?bs')"
    using Cons.prems by (simp add: ids_step_bodies)
  from map_of_ids_Some[OF g'] obtain b' where m0: "map_of ?bs' g = Some b'" ..
  have sp: "speed_of ?bs' g = speed b'"
    by (simp add: speed_of_def m0)
  have s1: "stepSimulation eng w = (Inr (), ?w1)"
    by (simp add: stepSimulation_def nf)
  have m1: "map_of (dynamic_bodies ?w1) g = Some b'"
    using m0 by (simp add: tick_def)
  have s2: "getBasePositionAndOrientation eng ?w1 g = (Inr (b_pos b'), tick ?w1)"
    using m1 by (simp add: getBasePositionAndOrientation_def nf)
  have m2: "map_of (dynamic_bodies (tick ?w1)) g = Some b'"
    using m0 by (simp add: tick_def)
  have s3: "getBaseVelocity eng (tick ?w1) g = (Inr (b_vel b'), ?w3)"
    using m2 by (simp add: getBaseVelocity_def nf)
  have w3: "dynamic_bodies ?w3 = ?bs'" "map_bodies ?w3 = map_bodies w"
    "created ?w3 = created w" "steps ?w3 = Suc (steps w)"
    by (simp_all add: tick_def)
  have g3: "g \<in> set (map fst (dynamic_bodies ?w3))"
    using g' by (simp add: tick_def)
  show ?case
  proof (cases "at_rest cfg (speed b') i")
    case True
    have ll: "loop_len eng cfg g (dynamic_bodies w) (i # rest) = 1"
      using True sp by (simp add: Let_def)
    have tr: "at_rest cfg (linalg_norm (list_of_vec3 (b_vel b'))) i"
      using True by (simp add: speed_def)
    have unf: "\<exists>lv'. sim_loop eng cfg g (i # rest) lv w = (Inr lv', ?w3) \<and> step lv' = Some i"
      using tr s1 s2 s3 by (simp add: convert_bullet_vec3 Let_def)
    then obtain lv' where u: "sim_loop eng cfg g (i # rest) lv w = (Inr lv', ?w3)" "step lv' = Some i"
      by blast
    show ?thesis
      unfolding ll u(1) using u(2) w3 by simp
  next
    case False
    define lv1 where "lv1 = \<lparr> trajectory_cs2 = trajectory_cs2 lv @
          [[fst (b_pos b') * units_per_meter cfg, snd (snd (b_pos b')) * units_per_meter cfg,
            fst (snd (b_pos b')) * units_per_meter cfg]],
        n_bounces = (if is_bounce cfg (speed b') (last_velocity_mag lv)
                     then Suc (n_bounces lv) else n_bounces lv),
        last_velocity_mag = speed b', step = Some i \<rparr>"
    have unf: "sim_loop eng cfg g (i # rest) lv w = sim_loop eng cfg g rest lv1 ?w3"
      using False s1 s2 s3 by (simp add: convert_bullet_vec3 speed_def Let_def lv1_def)
    from Cons.IH[OF g3, of lv1] obtain lv' w' where
      r: "sim_loop eng cfg g rest lv1 ?w3 = (Inr lv', w')"
        "steps w' = steps ?w3 + loop_len eng cfg g (dynamic_bodies ?w3) rest"
        "dynamic_bodies w' = (step_bodies eng ^^ loop_len eng cfg g (dynamic_bodies ?w3) rest)
                                (dynamic_bodies ?w3)"
        "map_bodies w' = map_bodies ?w3" "created w' = created ?w3"
        "rest = [] \<longrightarrow> step lv' = step lv1" "rest \<noteq> [] \<longrightarrow> step lv' \<noteq> None"
      by blast
    have st: "step lv' \<noteq> None" using r(6,7) by (cases rest) (auto simp: lv1_def)
    have ll: "loop_len eng cfg g (dynamic_bodies w) (i # rest) = Suc (loop_len eng cfg g ?bs' rest)"
      using False sp by (simp add: Let_def)
    have r2: "steps w' = steps w + Suc (loop_len eng cfg g ?bs' rest)"
      using r(2) unfolding w3 by simp
    have r3: "dynamic_bodies w' = (step_bodies eng ^^ Suc (loop_len eng cfg g ?bs' rest)) (dynamic_bodies w)"
      using r(3) unfolding w3 by (simp add: funpow_swap1)
    have r4: "map_bodies w' = map_bodies w" "created w' = created w"
      using r(4,5) unfolding w3 by simp_all
    show ?thesis
      unfolding unf ll r(1) using r2 r3 r4 st by simp
  qed
qed

lemma map_of_update_body:
  "map_of (update_body g f bs) g = map_option f (map_of bs g)"
  by (induction bs) (auto simp: update_body_def)

lemma ids_update_body: "map fst (update_body g f bs) = map fst bs"
  by (induction bs) (auto simp: update_body_def)

lemma map_of_snoc_fresh: "g \<notin> set (map fst bs) \<Longrightarrow> map_of (bs @ [(g, b)]) g = Some b"
  by (induction bs) auto

lemma ids_filter_fresh:
  "g \<notin> set (map fst bs) \<Longrightarrow> map fst (filter (\<lambda>(j, b). j \<noteq> g) (bs @ cs)) =
     map fst bs @ map fst (filter (\<lambda>(j, b). j \<noteq> g) cs)"
  by (induction bs) auto

lemma update_body_snoc_fresh:
  "g \<notin> set (map fst bs) \<Longrightarrow> update_body g h (bs @ [(g, b)]) = bs @ [(g, h b)]"
  by (induction bs) (auto simp: update_body_def)

lemma spawn_grenade_nofault:
  assumes nf: "faulty eng = (\<lambda>k. False)"
    and l1: "length sb = 3" and l2: "length vel = 3"
  shows "\<exists>w'. spawn_grenade eng cfg w sb vel = (Inr (fresh_id w), w')
       \<and> dynamic_bodies w' =
           dynamic_bodies w @ [(fresh_id w, grenade_body cfg (length (col_shapes w)) sb vel)]
       \<and> map_bodies w' = map_bodies w \<and> steps w' = steps w
       \<and> created w' = Suc (created w)"
proof -
  define g where "g = fresh_id w"
  define w2 where "w2 = tick (tick (w\<lparr>col_shapes := col_shapes w @ [grenade_radius cfg]\<rparr>)
                                   \<lparr>vis_shapes := Suc (vis_shapes w)\<rparr>)"
  have f: "g \<notin> set (map fst (dynamic_bodies w))"
    using fresh_id_not_dynamic[of w] by (simp add: body_ids_def g_def)
  have fr: "fresh_id w2 = g"
    by (simp add: fresh_id_def body_ids_def w2_def tick_def g_def)
  have c12: "createCollisionShape eng w (grenade_radius cfg) =
      (Inr (length (col_shapes w)), tick (w\<lparr>col_shapes := col_shapes w @ [grenade_radius cfg]\<rparr>))"
    by (simp add: createCollisionShape_def nf)
  have c2: "createVisualShape eng (tick (w\<lparr>col_shapes := col_shapes w @ [grenade_radius cfg]\<rparr>))
      (grenade_radius cfg) = (Inr (vis_shapes w), w2)"
    by (simp add: createVisualShape_def nf w2_def tick_def)
  define b1 where "b1 = \<lparr> b_pos = (sb ! 0, sb ! 1, sb ! 2),
                      b_vel = (0, 0, 0), b_mass = grenade_mass cfg, b_shape = length (col_shapes w),
                      b_restitution = 0, b_friction = 5 / 10,
                      b_linear_damping = 4 / 100, b_angular_damping = 4 / 100 \<rparr>"
  define w3 where "w3 = tick (w2\<lparr>dynamic_bodies := dynamic_bodies w @ [(g, b1)],
                               created := Suc (created w)\<rparr>)"
  have c3: "createMultiBody eng w2 (grenade_mass cfg) (length (col_shapes w)) (vis_shapes w) sb
      = (Inr g, w3)"
    using l1 fr by (simp add: createMultiBody_def nf Let_def w3_def b1_def)
       (simp add: w2_def tick_def)
  define h1 where "h1 = (\<lambda>b::body. b\<lparr>b_restitution := grenade_restitution cfg,
       b_friction := grenade_friction cfg, b_linear_damping := grenade_linear_damping cfg,
       b_angular_damping := grenade_angular_damping cfg\<rparr>)"
  define w4 where "w4 = tick (w3\<lparr>dynamic_bodies := dynamic_bodies w @ [(g, h1 b1)]\<rparr>)"
  have in3: "g \<in> set (body_ids w3)"
    by (simp add: w3_def tick_def body_ids_def)
  have c4: "changeDynamics eng w3 g (grenade_restitution cfg) (grenade_friction cfg)
             (grenade_linear_damping cfg) (grenade_angular_damping cfg) = (Inr (), w4)"
    using in3 f by (simp add: changeDynamics_def nf w4_def h1_def)
       (simp add: w3_def tick_def update_body_snoc_fresh)
  define w5 where "w5 = tick (w4\<lparr>dynamic_bodies := dynamic_bodies w @
       [(g, (h1 b1)\<lparr>b_vel := (vel ! 0, vel ! 1, vel ! 2)\<rparr>)]\<rparr>)"
  have in4: "g \<in> set (body_ids w4)"
    by (simp add: w4_def tick_def body_ids_def)
  have c5: "resetBaseVelocity eng w4 g vel = (Inr (), w5)"
    using in4 f l2 by (simp add: resetBaseVelocity_def nf w5_def)
       (simp add: w4_def tick_def update_body_snoc_fresh)
  have gb: "(h1 b1)\<lparr>b_vel := (vel ! 0, vel ! 1, vel ! 2)\<rparr> =
      grenade_body cfg (length (col_shapes w)) sb vel"
    by (simp add: h1_def b1_def grenade_body_def)
  have "spawn_grenade eng cfg w sb vel = (Inr g, w5)"
    by (simp add: spawn_grenade_def c12 c2 c3 c4 c5)
  moreover have "dynamic_bodies w5 = dynamic_bodies w @ [(g, grenade_body cfg (length (col_shapes w)) sb vel)]"
    using gb by (simp add: w5_def tick_def)
  moreover have "map_bodies w5 = map_bodies w \<and> steps w5 = steps w \<and> created w5 = Suc (created w)"
    by (simp add: w5_def w4_def w3_def w2_def tick_def)
  ultimately show ?thesis by (simp add: g_def)
qed

lemma finish_throw_nofault:
  assumes nf: "faulty eng = (\<lambda>k. False)"
    and m: "map_of (dynamic_bodies w) g = Some b"
  shows "\<exists>w'. finish_throw eng cfg g lv w =
         ((case step lv of
             None \<Rightarrow> Inl UnboundLocalError
           | Some i \<Rightarrow> Inr (trajectory_cs2 lv,
               \<lparr> final_position = [fst (b_pos b) * units_per_meter cfg,
                                    snd (snd (b_pos b)) * units_per_meter cfg,
                                    fst (snd (b_pos b)) * units_per_meter cfg],
                 final_velocity = speed b / meters_per_unit cfg,
                 bounces = n_bounces lv,
                 simulation_time = real i * time_step cfg,
                 trajectory_points = length (trajectory_cs2 lv) \<rparr>)), w')
       \<and> dynamic_bodies w' = filter (\<lambda>(j, b). j \<noteq> g) (dynamic_bodies w)
       \<and> map_bodies w' = map_bodies w \<and> steps w' = steps w \<and> created w' = created w"
proof -
  have i: "g \<in> set (body_ids w)"
    using map_of_in_ids[OF m] by (simp add: body_ids_def)
  show ?thesis
    using m i
    by (cases "step lv")
       (simp_all add: finish_throw_def getBasePositionAndOrientation_def getBaseVelocity_def
          removeBody_def nf tick_def convert_bullet_vec3 body_ids_def speed_def Let_def)
qed


lemma loop_len_le: "loop_len eng cfg g bs is \<le> length is"
  by (induction "is" arbitrary: bs) (auto simp: Let_def)

lemma loop_len_pos: "is \<noteq> [] \<Longrightarrow> 0 < loop_len eng cfg g bs is"
  by (cases "is") (auto simp: Let_def)

lemma fresh_in_bodies_after:
  "fresh_id w \<in> set (map fst (bodies_after eng cfg w start_pos pitch yaw throw_type k))"
  by (simp add: bodies_after_def ids_funpow_step_bodies initial_bodies_def)

lemma map_of_bodies_after:
  "map_of (bodies_after eng cfg w start_pos pitch yaw throw_type k) (fresh_id w)
     = Some (body_after eng cfg w start_pos pitch yaw throw_type k)"
proof -
  obtain b where "map_of (bodies_after eng cfg w start_pos pitch yaw throw_type k) (fresh_id w) = Some b"
    using map_of_ids_Some[OF fresh_in_bodies_after] by blast
  then show ?thesis by (simp add: body_after_def)
qed

lemma speed_of_bodies_after:
  "speed_of (bodies_after eng cfg w start_pos pitch yaw throw_type k) (fresh_id w)
     = speed (body_after eng cfg w start_pos pitch yaw throw_type k)"
  by (simp add: speed_of_def map_of_bodies_after)

lemma simulate_throw_spawned:
  assumes nf: "faulty eng = (\<lambda>k. False)"
    and l: "length start_pos = 3"
  shows "\<exists>sb w1. convert_cs2_to_bullet cfg start_pos = Inr sb
       \<and> spawn_grenade eng cfg w sb (velocity_bullet cfg pitch yaw throw_type)
            = (Inr (fresh_id w), w1)
       \<and> dynamic_bodies w1 = initial_bodies cfg w start_pos pitch yaw throw_type
       \<and> map_bodies w1 = map_bodies w \<and> steps w1 = steps w
       \<and> created w1 = Suc (created w)"
proof -
  define sb where "sb = [start_pos ! 0 * meters_per_unit cfg, start_pos ! 2 * meters_per_unit cfg,
        start_pos ! 1 * meters_per_unit cfg]"
  define vel where "vel = velocity_bullet cfg pitch yaw throw_type"
  have cv: "convert_cs2_to_bullet cfg start_pos = Inr sb"
    using l by (simp add: convert_cs2_to_bullet_def sb_def Let_def)
  have lv: "length vel = 3"
    by (simp add: vel_def velocity_bullet_def vscale_def direction_bullet_def Let_def)
  have lsb: "length sb = 3" by (simp add: sb_def)
  from spawn_grenade_nofault[OF nf lsb lv, of cfg w] obtain w1 where
    sp: "spawn_grenade eng cfg w sb vel = (Inr (fresh_id w), w1)"
      "dynamic_bodies w1 = dynamic_bodies w @
         [(fresh_id w, initial_body cfg w start_pos pitch yaw throw_type)]"
      "map_bodies w1 = map_bodies w" "steps w1 = steps w" "created w1 = Suc (created w)"
    unfolding initial_body_def sb_def vel_def by blast
  show ?thesis
    using cv sp unfolding vel_def initial_bodies_def by blast
qed

lemma simulate_throw_int_raises:
  assumes nf: "faulty eng = (\<lambda>k. False)"
    and l: "length start_pos = 3"
    and ns: "num_steps cfg max_time = Inl e"
  shows "\<exists>w'. simulate_throw eng cfg w start_pos pitch yaw throw_type max_time = (Inl e, w')
       \<and> body_ids w' = body_ids w @ [fresh_id w] \<and> map_bodies w' = map_bodies w
       \<and> created w' = Suc (created w) \<and> steps w' = steps w"
proof -
  from simulate_throw_spawned[OF nf l, of cfg w pitch yaw throw_type] obtain sb w1 where
    cv: "convert_cs2_to_bullet cfg start_pos = Inr sb"
    and sp: "spawn_grenade eng cfg w sb (velocity_bullet cfg pitch yaw throw_type)
            = (Inr (fresh_id w), w1)"
    and w1: "dynamic_bodies w1 = initial_bodies cfg w start_pos pitch yaw throw_type"
      "map_bodies w1 = map_bodies w" "steps w1 = steps w" "created w1 = Suc (created w)"
    by blast
  have st: "simulate_throw eng cfg w start_pos pitch yaw throw_type max_time = (Inl e, w1)"
    by (simp add: simulate_throw_def cv sp ns)
  have "body_ids w1 = body_ids w @ [fresh_id w]"
    by (simp add: body_ids_def w1(1) initial_bodies_def)
  then show ?thesis using st w1(2-4) by simp
qed

lemma simulate_throw_nofault:
  assumes nf: "faulty eng = (\<lambda>k. False)"
    and l: "length start_pos = 3"
    and ns: "num_steps cfg max_time = Inr n"
  shows "\<exists>r w' m. m = run_length eng cfg w start_pos pitch yaw throw_type max_time \<and>
       simulate_throw eng cfg w start_pos pitch yaw throw_type max_time = (r, w')
       \<and> body_ids w' = body_ids w \<and> map_bodies w' = map_bodies w
       \<and> created w' = Suc (created w) \<and> steps w' = steps w + m
       \<and> (n \<le> 0 \<longrightarrow> r = Inl UnboundLocalError)
       \<and> (0 < n \<longrightarrow>
            (\<exists>traj res. r = Inr (traj, res) \<and>
               final_position res =
                 (let p = b_pos (body_after eng cfg w start_pos pitch yaw throw_type m)
                  in [fst p * units_per_meter cfg, snd (snd p) * units_per_meter cfg,
                      fst (snd p) * units_per_meter cfg])))"
proof -
  define m where "m = run_length eng cfg w start_pos pitch yaw throw_type max_time"
  define g where "g = fresh_id w"
  define idx where "idx = [0..<nat n]"
  define lv0 where "lv0 = \<lparr> trajectory_cs2 = [], n_bounces = 0,
               last_velocity_mag = get_throw_speed cfg throw_type * meters_per_unit cfg,
               step = None \<rparr>"
  define bm where "bm = body_after eng cfg w start_pos pitch yaw throw_type m"
  from simulate_throw_spawned[OF nf l, of cfg w pitch yaw throw_type] obtain sb w1 where
    cv: "convert_cs2_to_bullet cfg start_pos = Inr sb"
    and sp1: "spawn_grenade eng cfg w sb (velocity_bullet cfg pitch yaw throw_type) = (Inr g, w1)"
    and ib: "dynamic_bodies w1 = initial_bodies cfg w start_pos pitch yaw throw_type"
    and sp: "map_bodies w1 = map_bodies w" "steps w1 = steps w" "created w1 = Suc (created w)"
    unfolding g_def by blast
  have f: "g \<notin> set (map fst (dynamic_bodies w))"
    using fresh_id_not_dynamic[of w] by (simp add: body_ids_def g_def)
  have g1: "g \<in> set (map fst (dynamic_bodies w1))"
    by (simp add: ib initial_bodies_def g_def)
  have lb: "loop_bound cfg max_time = nat n"
    by (simp add: loop_bound_def ns)
  have mm: "m = loop_len eng cfg g (dynamic_bodies w1) idx"
    by (simp add: m_def run_length_def g_def ib idx_def lb)
  from sim_loop_nofault[OF nf g1, of cfg idx lv0] obtain lv' w2 where
    lp: "sim_loop eng cfg g idx lv0 w1 = (Inr lv', w2)"
      "steps w2 = steps w1 + m"
      "dynamic_bodies w2 = (step_bodies eng ^^ m) (dynamic_bodies w1)"
      "map_bodies w2 = map_bodies w1" "created w2 = created w1"
      "idx = [] \<longrightarrow> step lv' = step lv0" "idx \<noteq> [] \<longrightarrow> step lv' \<noteq> None"
    unfolding mm by blast
  have d2: "dynamic_bodies w2 = bodies_after eng cfg w start_pos pitch yaw throw_type m"
    by (simp add: lp(3) ib bodies_after_def)
  have m2: "map_of (dynamic_bodies w2) g = Some bm"
    unfolding d2 g_def bm_def by (rule map_of_bodies_after)
  from finish_throw_nofault[OF nf m2, of cfg lv'] obtain w3 where
    fi: "finish_throw eng cfg g lv' w2 =
         ((case step lv' of
             None \<Rightarrow> Inl UnboundLocalError
           | Some i \<Rightarrow> Inr (trajectory_cs2 lv',
               \<lparr> final_position = [fst (b_pos bm) * units_per_meter cfg,
                                    snd (snd (b_pos bm)) * units_per_meter cfg,
                                    fst (snd (b_pos bm)) * units_per_meter cfg],
                 final_velocity = speed bm / meters_per_unit cfg,
                 bounces = n_bounces lv',
                 simulation_time = real i * time_step cfg,
                 trajectory_points = length (trajectory_cs2 lv') \<rparr>)), w3)"
      "dynamic_bodies w3 = filter (\<lambda>(j, b). j \<noteq> g) (dynamic_bodies w2)"
      "map_bodies w3 = map_bodies w2" "steps w3 = steps w2" "created w3 = created w2"
    by blast
  have st: "simulate_throw eng cfg w start_pos pitch yaw throw_type max_time =
      finish_throw eng cfg g lv' w2"
    by (simp add: simulate_throw_def cv sp1 ns lp(1)[unfolded idx_def lv0_def])
  have ids2: "map fst (dynamic_bodies w2) = map fst (dynamic_bodies w) @ [g]"
    by (simp add: lp(3) ids_funpow_step_bodies ib initial_bodies_def g_def)
  have ids3: "body_ids w3 = body_ids w"
  proof -
    have "body_ids w3 = filter (\<lambda>j. j \<noteq> g) (map fst (dynamic_bodies w2))"
      by (simp add: body_ids_def fi(2) filter_map comp_def case_prod_unfold)
    also have "\<dots> = map fst (dynamic_bodies w)"
      using f by (auto simp: ids2 filter_id_conv)
    finally show ?thesis by (simp add: body_ids_def)
  qed
  have e0: "n \<le> 0 \<longrightarrow> step lv' = None"
    using lp(6) by (simp add: idx_def lv0_def)
  have e1: "0 < n \<longrightarrow> step lv' \<noteq> None"
    using lp(7) by (simp add: idx_def)
  show ?thesis
    unfolding st fi(1)
    using ids3 fi(3-5) lp(2,4,5) sp e0 e1
    by (auto simp: Let_def m_def bm_def split: option.splits)
qed

lemma steps_nofault:
  assumes nf: "faulty eng = (\<lambda>k. False)" and l: "length start_pos = 3"
  shows "steps (snd (simulate_throw eng cfg w start_pos pitch yaw throw_type max_time))
     = steps w + run_length eng cfg w start_pos pitch yaw throw_type max_time"
proof (cases "num_steps cfg max_time")
  case (Inl e)
  have "run_length eng cfg w start_pos pitch yaw throw_type max_time = 0"
    by (simp add: run_length_def loop_bound_def Inl)
  then show ?thesis
    using simulate_throw_int_raises[OF nf l Inl, of w pitch yaw throw_type] by auto
next
  case (Inr n)
  from simulate_throw_nofault[OF nf l Inr, of w pitch yaw throw_type]
  show ?thesis by auto
qed

section \<open>What every path of a throw preserves\<close>

lemmas world_op_defs = createCollisionShape_def createVisualShape_def createMultiBody_def
  changeDynamics_def resetBaseVelocity_def stepSimulation_def getBasePositionAndOrientation_def
  getBaseVelocity_def removeBody_def

lemma bind_keeps:
  "P (snd x) \<Longrightarrow> (\<And>a w1. P w1 \<Longrightarrow> P (snd (f a w1))) \<Longrightarrow>
     P (snd (case x of (Inl e, w1) \<Rightarrow> (Inl e, w1) | (Inr a, w1) \<Rightarrow> f a w1))"
  by (cases x) (auto split: sum.splits)

lemma sum_keeps:
  "P w \<Longrightarrow> (\<And>a. P (snd (f a))) \<Longrightarrow>
     P (snd (case c of Inl e \<Rightarrow> (Inl e, w) | Inr a \<Rightarrow> f a))"
  by (cases c) auto

lemma if_keeps:
  "(c \<Longrightarrow> P (snd a)) \<Longrightarrow> (\<not> c \<Longrightarrow> P (snd b)) \<Longrightarrow> P (snd (if c then a else b))"
  by simp

lemma ops_static:
  "map_bodies (snd (createCollisionShape eng w r)) = map_bodies w"
  "map_bodies (snd (createVisualShape eng w r)) = map_bodies w"
  "map_bodies (snd (createMultiBody eng w ms sh vi bp)) = map_bodies w"
  "map_bodies (snd (changeDynamics eng w g a b c d)) = map_bodies w"
  "map_bodies (snd (resetBaseVelocity eng w g v)) = map_bodies w"
  "map_bodies (snd (stepSimulation eng w)) = map_bodies w"
  "map_bodies (snd (getBasePositionAndOrientation eng w g)) = map_bodies w"
  "map_bodies (snd (getBaseVelocity eng w g)) = map_bodies w"
  "map_bodies (snd (removeBody eng w g)) = map_bodies w"
  by (simp_all add: world_op_defs tick_def Let_def split: option.splits)

lemma ops_steps:
  "steps (snd (createCollisionShape eng w r)) = steps w"
  "steps (snd (createVisualShape eng w r)) = steps w"
  "steps (snd (createMultiBody eng w ms sh vi bp)) = steps w"
  "steps (snd (changeDynamics eng w g a b c d)) = steps w"
  "steps (snd (resetBaseVelocity eng w g v)) = steps w"
  "steps (snd (getBasePositionAndOrientation eng w g)) = steps w"
  "steps (snd (getBaseVelocity eng w g)) = steps w"
  "steps (snd (removeBody eng w g)) = steps w"
  by (simp_all add: world_op_defs tick_def Let_def split: option.splits)

lemma spawn_grenade_static:
  "map_bodies (snd (spawn_grenade eng cfg w sb vel)) = map_bodies w"
  unfolding spawn_grenade_def
  by (intro bind_keeps[where P = "\<lambda>w'. map_bodies w' = map_bodies w"]) (simp_all add: ops_static)

lemma spawn_grenade_steps:
  "steps (snd (spawn_grenade eng cfg w sb vel)) = steps w"
  unfolding spawn_grenade_def
  by (intro bind_keeps[where P = "\<lambda>w'. steps w' = steps w"]) (simp_all add: ops_steps)

lemma finish_throw_static:
  "map_bodies (snd (finish_throw eng cfg g lv w)) = map_bodies w"
  unfolding finish_throw_def Let_def
  by (intro bind_keeps[where P = "\<lambda>w'. map_bodies w' = map_bodies w"]
            sum_keeps[where P = "\<lambda>w'. map_bodies w' = map_bodies w"])
     (simp_all add: ops_static split: option.splits)

lemma finish_throw_steps:
  "steps (snd (finish_throw eng cfg g lv w)) = steps w"
  unfolding finish_throw_def Let_def
  by (intro bind_keeps[where P = "\<lambda>w'. steps w' = steps w"]
            sum_keeps[where P = "\<lambda>w'. steps w' = steps w"])
     (simp_all add: ops_steps split: option.splits)

lemma sim_loop_static:
  "map_bodies (snd (sim_loop eng cfg g is lv w)) = map_bodies w"
proof (induction "is" arbitrary: lv w)
  case Nil
  then show ?case by simp
next
  case (Cons i rest)
  show ?case
    unfolding sim_loop.simps Let_def
    by (intro bind_keeps[where P = "\<lambda>w'. map_bodies w' = map_bodies w"]
              sum_keeps[where P = "\<lambda>w'. map_bodies w' = map_bodies w"])
       (simp_all add: ops_static Cons.IH)
qed

lemma simulate_throw_static:
  "map_bodies (snd (simulate_throw eng cfg w start_pos pitch yaw throw_type max_time)) = map_bodies w"
  unfolding simulate_throw_def
  by (intro bind_keeps[where P = "\<lambda>w'. map_bodies w' = map_bodies w"]
            sum_keeps[where P = "\<lambda>w'. map_bodies w' = map_bodies w"]
            if_keeps[where P = "\<lambda>w'. map_bodies w' = map_bodies w"])
     (simp_all add: spawn_grenade_static sim_loop_static finish_throw_static)

lemma sim_loop_steps_le:
  "steps (snd (sim_loop eng cfg g is lv w)) \<le> steps w + length is"
proof (induction "is" arbitrary: lv w)
  case Nil
  then show ?case by simp
next
  case (Cons i rest)
  obtain r1 w1 where s1: "stepSimulation eng w = (r1, w1)" by force
  have b1: "steps w1 \<le> Suc (steps w)"
    using s1 by (auto simp: stepSimulation_def tick_def split: if_splits)
  show ?case
  proof (cases r1)
    case (Inl e)
    then show ?thesis using s1 b1 by simp
  next
    case u: (Inr u)
    obtain r2 w2 where s2: "getBasePositionAndOrientation eng w1 g = (r2, w2)" by force
    have b2: "steps w2 = steps w1" using ops_steps(6)[of eng w1 g] s2 by simp
    show ?thesis
    proof (cases r2)
      case (Inl e)
      then show ?thesis using s1 u s2 b1 b2 by simp
    next
      case p: (Inr pos_bullet)
      obtain r3 w3 where s3: "getBaseVelocity eng w2 g = (r3, w3)" by force
      have b3: "steps w3 = steps w2" using ops_steps(7)[of eng w2 g] s3 by simp
      show ?thesis
      proof (cases r3)
        case (Inl e)
        then show ?thesis using s1 u s2 p s3 b1 b2 b3 by (simp add: convert_bullet_vec3)
      next
        case v: (Inr linear_vel)
        have "steps (snd (sim_loop eng cfg g rest lv' w3)) \<le> steps w + Suc (length rest)" for lv'
          using Cons.IH[of lv' w3] b1 b2 b3 by simp
        then show ?thesis
          using s1 u s2 p s3 v b1 b2 b3 by (simp add: convert_bullet_vec3 Let_def)
      qed
    qed
  qed
qed

lemma simulate_throw_steps_le:
  "steps (snd (simulate_throw eng cfg w start_pos pitch yaw throw_type max_time))
     \<le> steps w + loop_bound cfg max_time"
proof (cases "convert_cs2_to_bullet cfg start_pos")
  case (Inl e)
  then show ?thesis by (simp add: simulate_throw_def)
next
  case sb: (Inr sb)
  obtain r1 w1 where s1: "spawn_grenade eng cfg w sb (velocity_bullet cfg pitch yaw throw_type)
      = (r1, w1)" by force
  have b1: "steps w1 = steps w"
    using spawn_grenade_steps[of eng cfg w sb "velocity_bullet cfg pitch yaw throw_type"] s1 by simp
  show ?thesis
  proof (cases r1)
    case (Inl e)
    then show ?thesis using sb s1 b1 by (simp add: simulate_throw_def)
  next
    case g: (Inr g)
    show ?thesis
    proof (cases "num_steps cfg max_time")
      case (Inl e)
      then show ?thesis using sb s1 g b1 by (simp add: simulate_throw_def)
    next
      case n: (Inr n)
      define lv0 where "lv0 = \<lparr> trajectory_cs2 = [], n_bounces = 0,
               last_velocity_mag = get_throw_speed cfg throw_type * meters_per_unit cfg,
               step = None \<rparr>"
      obtain r2 w2 where s2: "sim_loop eng cfg g [0..<nat n] lv0 w1 = (r2, w2)" by force
      have b2: "steps w2 \<le> steps w + nat n"
        using sim_loop_steps_le[of eng cfg g "[0..<nat n]" lv0 w1] s2 b1 by simp
      have lb: "loop_bound cfg max_time = nat n" by (simp add: loop_bound_def n)
      show ?thesis
      proof (cases r2)
        case (Inl e)
        then show ?thesis
          using sb s1 g n s2[unfolded lv0_def] b2 lb by (simp add: simulate_throw_def)
      next
        case (Inr lv)
        then show ?thesis
          using sb s1 g n s2[unfolded lv0_def] b2 lb
          by (simp add: simulate_throw_def finish_throw_steps)
      qed
    qed
  qed
qed

lemma step_mono: "steps w \<le> steps (snd (stepSimulation eng w))"
  by (simp add: stepSimulation_def tick_def)

lemma sim_loop_steps_ge:
  "steps w0 \<le> steps w \<Longrightarrow> steps w0 \<le> steps (snd (sim_loop eng cfg g is lv w))"
proof (induction "is" arbitrary: lv w)
  case Nil
  then show ?case by simp
next
  case (Cons i rest)
  have s: "steps w0 \<le> steps (snd (stepSimulation eng w))"
    using Cons.prems step_mono[of w eng] by linarith
  show ?case
    unfolding sim_loop.simps Let_def
    by (intro bind_keeps[where P = "\<lambda>w'. steps w0 \<le> steps w'"]
              sum_keeps[where P = "\<lambda>w'. steps w0 \<le> steps w'"]
              if_keeps[where P = "\<lambda>w'. steps w0 \<le> steps w'"])
       (simp_all add: ops_steps s Cons.IH)
qed

lemma simulate_throw_steps_ge:
  "steps w \<le> steps (snd (simulate_throw eng cfg w start_pos pitch yaw throw_type max_time))"
  unfolding simulate_throw_def
  by (intro bind_keeps[where P = "\<lambda>w'. steps w \<le> steps w'"]
            sum_keeps[where P = "\<lambda>w'. steps w \<le> steps w'"])
     (simp_all add: spawn_grenade_steps finish_throw_steps sim_loop_steps_ge)

lemma simulate_throw_no_steps:
  assumes "loop_bound cfg max_time = 0"
  shows "steps (snd (simulate_throw eng cfg w start_pos pitch yaw throw_type max_time)) = steps w"
  using simulate_throw_steps_le[of eng cfg w start_pos pitch yaw throw_type max_time]
    simulate_throw_steps_ge[of w eng cfg start_pos pitch yaw throw_type max_time] assms
  by simp

lemma time_step_default: "time_step CS2_PHYSICS = 1 / 120"
  by (simp add: CS2_PHYSICS_def)

lemmas eval_defs = simulate_throw_def convert_cs2_to_bullet_def spawn_grenade_def
  createCollisionShape_def createVisualShape_def createMultiBody_def changeDynamics_def
  resetBaseVelocity_def stepSimulation_def getBasePositionAndOrientation_def getBaseVelocity_def
  removeBody_def step_bodies_def tick_def fresh_id_def body_ids_def update_body_def
  finish_throw_def convert_bullet_to_cs2_def list_of_vec3_def linalg_norm_def velocity_bullet_def
  direction_cs2_def direction_bullet_def vscale_def get_throw_speed_def is_bounce_def at_rest_def
  CS2_PHYSICS_def default_throw_speeds_def test_world_def Let_def

section \<open>Coordinate conversion\<close>

lemma roundtrip_scales:
  "length v = 3 \<Longrightarrow> roundtrip CS2_PHYSICS v = Inr (map (\<lambda>x. x * (999998 / 1000000)) v)"
  apply (cases v; simp)
  subgoal for a v1 apply (cases v1; simp)
    subgoal for b v2 apply (cases v2; simp)
      by (simp add: roundtrip_def convert_cs2_to_bullet_def convert_bullet_to_cs2_def
          CS2_PHYSICS_def Let_def)
    done
  done

text \<open>
  Claim C5 says that converting a game-space vector to simulation space and back gives
  the vector again within a relative tolerance of \<open>1e-6\<close>. The two factors of the code,
  0.0254 and 39.37, multiply to 0.999998: the round trip of \<open>(1000000, 0, 0)\<close> is
  \<open>(999998, 0, 0)\<close>, off by 2 where the tolerance allows 1.
\<close>

theorem roundtrip_misses_tolerance:
  "roundtrip CS2_PHYSICS [1000000, 0, 0] = Inr [999998, 0, 0]
   \<and> \<bar>(999998::real) - 1000000\<bar> > (1 / 1000000) * \<bar>1000000\<bar>"
  by (simp add: roundtrip_def convert_cs2_to_bullet_def convert_bullet_to_cs2_def
      CS2_PHYSICS_def Let_def)

section \<open>The direction of a throw\<close>

lemma norm3: "linalg_norm [a, b, c] = sqrt (a * a + b * b + c * c)"
  by (simp add: linalg_norm_def)

lemma direction_cs2_unit: "linalg_norm (direction_cs2 pitch yaw) = 1"
proof -
  let ?p = "radians pitch" and ?y = "radians yaw"
  have "cos ?p * cos ?y * (cos ?p * cos ?y) + cos ?p * sin ?y * (cos ?p * sin ?y) + sin ?p * sin ?p
      = (cos ?p)\<^sup>2 * ((cos ?y)\<^sup>2 + (sin ?y)\<^sup>2) + (sin ?p)\<^sup>2"
    by (simp only: power2_eq_square ring_distribs ac_simps)
  also have "\<dots> = 1" by simp
  finally show ?thesis
    by (simp only: direction_cs2_def Let_def norm3 real_sqrt_one)
qed

lemma norm_direction_bullet:
  "length d = 3 \<Longrightarrow> linalg_norm (direction_bullet d) = linalg_norm d"
  apply (cases d; simp)
  subgoal for a v1 apply (cases v1; simp)
    subgoal for b v2 apply (cases v2; simp)
      by (simp add: direction_bullet_def norm3 add.commute add.left_commute)
    done
  done

lemma norm_vscale: "linalg_norm (vscale v s) = linalg_norm v * \<bar>s\<bar>"
proof -
  have "sum_list (map (\<lambda>x. x * s * (x * s)) v) = sum_list (map (\<lambda>x. x * x) v) * (s * s)"
    by (induction v) (simp_all add: algebra_simps)
  then show ?thesis
    by (simp add: linalg_norm_def vscale_def comp_def real_sqrt_mult)
qed

text \<open>
  Claim C8, as amended: the conversion of the direction to simulation space only swaps
  two axes, so the converted direction has the magnitude of the direction itself, which
  is 1 for every pitch and yaw; the scale factor enters with the speed, and the initial
  velocity has the magnitude of the throw speed times \<open>meters_per_unit\<close>.
\<close>

theorem direction_conversion_keeps_norm:
  "linalg_norm (direction_bullet (direction_cs2 pitch yaw)) = linalg_norm (direction_cs2 pitch yaw)
   \<and> linalg_norm (direction_cs2 pitch yaw) = 1
   \<and> linalg_norm (velocity_bullet cfg pitch yaw throw_type)
       = \<bar>get_throw_speed cfg throw_type * meters_per_unit cfg\<bar>"
proof -
  have l: "length (direction_cs2 pitch yaw) = 3" by (simp add: direction_cs2_def Let_def)
  show ?thesis
    by (simp add: norm_direction_bullet[OF l] direction_cs2_unit velocity_bullet_def Let_def
        norm_vscale)
qed

text \<open>
  Claim C8 as stated fails at pitch 0 and yaw 0: the converted direction has magnitude
  1, which is neither \<open>1 * 0.0254\<close> nor \<open>1 * 39.37\<close>.
\<close>

theorem direction_conversion_not_scaled:
  "linalg_norm (direction_bullet (direction_cs2 0 0))
     \<noteq> linalg_norm (direction_cs2 0 0) * meters_per_unit CS2_PHYSICS
   \<and> linalg_norm (direction_bullet (direction_cs2 0 0))
     \<noteq> linalg_norm (direction_cs2 0 0) * units_per_meter CS2_PHYSICS"
  by (simp add: direction_bullet_def direction_cs2_def radians_def linalg_norm_def CS2_PHYSICS_def)

section \<open>The search strategies\<close>

text \<open>
  Claim C10: for every engine, world, target, throw type and \<open>max_results\<close>, the
  strategies \<open>GENETIC\<close> and \<open>HYBRID\<close> return what \<open>GRID_SEARCH\<close> returns (the solutions
  or the exception, and the world the search leaves).
\<close>

theorem genetic_and_hybrid_are_grid:
  "find_smokes eng cfg w target_pos throw_type GENETIC max_results
     = find_smokes eng cfg w target_pos throw_type GRID_SEARCH max_results
   \<and> find_smokes eng cfg w target_pos throw_type HYBRID max_results
     = find_smokes eng cfg w target_pos throw_type GRID_SEARCH max_results"
  by (simp add: find_smokes_def genetic_search_def hybrid_search_def)

section \<open>The grenade body of a throw\<close>

text \<open>
  Claim C1, as amended: for every call of \<open>simulate_throw\<close> (any engine, world, start
  position, pitch, yaw, throw type and time budget) the static map bodies are the same
  after the call as before it, whatever fails; and when no operation of the underlying
  world fails and line 186 computes the step count \<open>int(max_time / time_step)\<close> without
  raising, the dynamic bodies of the world after the call are exactly those before it:
  the grenade that the call created has been removed by the time it returns. Line 186
  does not raise for any finite budget of magnitude up to \<open>10 ^ 300\<close>.
\<close>

theorem simulate_throw_removes_grenade:
  "map_bodies (snd (simulate_throw eng CS2_PHYSICS w start_pos pitch yaw throw_type max_time))
     = map_bodies w
   \<and> (faulty eng = (\<lambda>k. False) \<and> (\<exists>n. num_steps CS2_PHYSICS max_time = Inr n) \<longrightarrow>
        body_ids (snd (simulate_throw eng CS2_PHYSICS w start_pos pitch yaw throw_type max_time))
          = body_ids w)
   \<and> (\<bar>t\<bar> \<le> 10 ^ 300 \<longrightarrow> (\<exists>n. num_steps CS2_PHYSICS (Finite t) = Inr n))"
proof (intro conjI impI)
  show "map_bodies (snd (simulate_throw eng CS2_PHYSICS w start_pos pitch yaw throw_type max_time))
     = map_bodies w"
    by (rule simulate_throw_static)
next
  assume h: "faulty eng = (\<lambda>k. False) \<and> (\<exists>n. num_steps CS2_PHYSICS max_time = Inr n)"
  then have nf: "faulty eng = (\<lambda>k. False)" by simp
  from h obtain n where ns: "num_steps CS2_PHYSICS max_time = Inr n" by blast
  show "body_ids (snd (simulate_throw eng CS2_PHYSICS w start_pos pitch yaw throw_type max_time))
          = body_ids w"
  proof (cases "length start_pos = 3")
    case True
    from simulate_throw_nofault[OF nf True ns, of w pitch yaw throw_type]
    show ?thesis by auto
  next
    case False
    then show ?thesis
      by (simp add: simulate_throw_def convert_cs2_to_bullet_def Let_def)
  qed
next
  assume "\<bar>t\<bar> \<le> 10 ^ 300"
  then show "\<exists>n. num_steps CS2_PHYSICS (Finite t) = Inr n"
    by (rule num_steps_total)
qed

text \<open>An instance: the throw of the module's self-test in the test scene.\<close>

theorem simulate_throw_removes_grenade_witness:
  "faulty still_engine = (\<lambda>k. False) \<and> num_steps CS2_PHYSICS (Finite 3) = Inr 360
   \<and> \<bar>3 :: real\<bar> \<le> 10 ^ 300
   \<and> map_bodies (snd (simulate_throw still_engine CS2_PHYSICS test_world [0, 0, 200] 30 45
                        LEFT_CLICK (Finite 3))) = [0, 1, 2, 3, 4]
   \<and> body_ids (snd (simulate_throw still_engine CS2_PHYSICS test_world [0, 0, 200] 30 45
                      LEFT_CLICK (Finite 3))) = []"
  using simulate_throw_removes_grenade[where eng = still_engine and w = test_world
      and start_pos = "[0, 0, 200]" and pitch = 30 and yaw = 45 and throw_type = LEFT_CLICK
      and max_time = "Finite 3" and t = 3]
  by (simp add: still_engine_def test_world_def body_ids_def num_steps_three)

text \<open>
  Claim C1 as stated fails when an operation of the world raises partway: if the first
  \<open>stepSimulation\<close> raises, the exception leaves \<open>simulate_throw\<close> before line 223 and
  the grenade, body 5, stays in the world, which had no dynamic body before. It also
  fails with no operation of the world failing: for an infinite time budget \<open>int\<close>
  raises \<open>OverflowError\<close> at line 186, after the grenade was created, and the grenade
  stays.
\<close>

theorem simulate_throw_leaks_on_fault:
  "fst (simulate_throw step_fault_engine CS2_PHYSICS test_world [0, 0, 200] 30 45 LEFT_CLICK (Finite 3))
     = Inl BulletError
   \<and> body_ids (snd (simulate_throw step_fault_engine CS2_PHYSICS test_world [0, 0, 200] 30 45
                      LEFT_CLICK (Finite 3))) = [5]
   \<and> fst (simulate_throw still_engine CS2_PHYSICS test_world [0, 0, 200] 30 45 LEFT_CLICK PosInf)
     = Inl OverflowError
   \<and> body_ids (snd (simulate_throw still_engine CS2_PHYSICS test_world [0, 0, 200] 30 45
                      LEFT_CLICK PosInf)) = [5]
   \<and> body_ids test_world = []"
proof -
  have u: "[0..<360] = 0 # [1..<360]" by (simp add: upt_conv_Cons)
  have a: "fst (simulate_throw step_fault_engine CS2_PHYSICS test_world [0, 0, 200] 30 45
                  LEFT_CLICK (Finite 3)) = Inl BulletError
      \<and> body_ids (snd (simulate_throw step_fault_engine CS2_PHYSICS test_world [0, 0, 200] 30 45
                      LEFT_CLICK (Finite 3))) = [5]"
    unfolding simulate_throw_def num_steps_three
    by (simp add: eval_defs step_fault_engine_def u)
  have nf: "faulty still_engine = (\<lambda>k. False)" by (simp add: still_engine_def)
  have l: "length [0, 0, 200 :: real] = 3" by simp
  have f: "fresh_id test_world = 5" "body_ids test_world = []"
    by (simp_all add: test_world_def body_ids_def fresh_id_def)
  from simulate_throw_int_raises[OF nf l num_steps_inf, of test_world 30 45 LEFT_CLICK]
  have b: "fst (simulate_throw still_engine CS2_PHYSICS test_world [0, 0, 200] 30 45 LEFT_CLICK PosInf)
     = Inl OverflowError
   \<and> body_ids (snd (simulate_throw still_engine CS2_PHYSICS test_world [0, 0, 200] 30 45
                      LEFT_CLICK PosInf)) = [5]"
    by (auto simp: f)
  from a b f(2) show ?thesis by blast
qed

text \<open>
  Claim C2, as amended: a call with \<open>max_time \<le> 0\<close> runs no simulation step; it is
  not rejected before work begins, though: when no operation of the world fails and the
  start position has three coordinates, the call creates one grenade body, and when
  line 186 computes the step count without raising (as it does for every finite budget
  of magnitude up to \<open>10 ^ 300\<close>) it removes that body again, so that the dynamic bodies
  after the call are those before it. When line 186 raises, which it does with
  \<open>OverflowError\<close> only, the body stays.
\<close>

theorem simulate_throw_nonpositive_time:
  "float_le_zero max_time \<Longrightarrow>
     steps (snd (simulate_throw eng CS2_PHYSICS w start_pos pitch yaw throw_type max_time)) = steps w
     \<and> (faulty eng = (\<lambda>k. False) \<and> length start_pos = 3 \<longrightarrow>
          created (snd (simulate_throw eng CS2_PHYSICS w start_pos pitch yaw throw_type max_time))
            = Suc (created w)
          \<and> (if \<exists>n. num_steps CS2_PHYSICS max_time = Inr n
              then body_ids (snd (simulate_throw eng CS2_PHYSICS w start_pos pitch yaw throw_type
                                    max_time)) = body_ids w
              else simulate_throw eng CS2_PHYSICS w start_pos pitch yaw throw_type max_time
                     = (Inl OverflowError,
                        snd (simulate_throw eng CS2_PHYSICS w start_pos pitch yaw throw_type max_time))
                   \<and> body_ids (snd (simulate_throw eng CS2_PHYSICS w start_pos pitch yaw throw_type
                                    max_time)) = body_ids w @ [fresh_id w]))
     \<and> (\<bar>t\<bar> \<le> 10 ^ 300 \<longrightarrow> (\<exists>n. num_steps CS2_PHYSICS (Finite t) = Inr n))"
proof (intro conjI impI)
  assume a: "float_le_zero max_time"
  show "steps (snd (simulate_throw eng CS2_PHYSICS w start_pos pitch yaw throw_type max_time)) = steps w"
    by (rule simulate_throw_no_steps[OF loop_bound_nonpositive[OF a]])
next
  assume a: "float_le_zero max_time"
  assume h: "faulty eng = (\<lambda>k. False) \<and> length start_pos = 3"
  then have nf: "faulty eng = (\<lambda>k. False)" and l: "length start_pos = 3" by simp_all
  let ?R = "simulate_throw eng CS2_PHYSICS w start_pos pitch yaw throw_type max_time"
  have c: "created (snd ?R) = Suc (created w)
     \<and> (if \<exists>n. num_steps CS2_PHYSICS max_time = Inr n
         then body_ids (snd ?R) = body_ids w
         else ?R = (Inl OverflowError, snd ?R) \<and> body_ids (snd ?R) = body_ids w @ [fresh_id w])"
  proof (cases "num_steps CS2_PHYSICS max_time")
    case (Inl e)
    then have e: "e = OverflowError" using num_steps_nonpositive[OF a] by auto
    from simulate_throw_int_raises[OF nf l Inl, of w pitch yaw throw_type]
    show ?thesis using Inl e by auto
  next
    case (Inr n)
    from simulate_throw_nofault[OF nf l Inr, of w pitch yaw throw_type]
    show ?thesis using Inr by auto
  qed
  from c show "created (snd ?R) = Suc (created w)" by (rule conjunct1)
  from c show "if \<exists>n. num_steps CS2_PHYSICS max_time = Inr n
         then body_ids (snd ?R) = body_ids w
         else ?R = (Inl OverflowError, snd ?R) \<and> body_ids (snd ?R) = body_ids w @ [fresh_id w]"
    by (rule conjunct2)
next
  assume "\<bar>t\<bar> \<le> 10 ^ 300"
  then show "\<exists>n. num_steps CS2_PHYSICS (Finite t) = Inr n"
    by (rule num_steps_total)
qed

text \<open>An instance with time budget 0.\<close>

theorem simulate_throw_nonpositive_time_witness:
  "float_le_zero (Finite 0) \<and> faulty still_engine = (\<lambda>k. False)
   \<and> length [0, 0, 200 :: real] = 3 \<and> \<bar>0 :: real\<bar> \<le> 10 ^ 300
   \<and> num_steps CS2_PHYSICS (Finite 0) = Inr 0
   \<and> steps (snd (simulate_throw still_engine CS2_PHYSICS test_world [0, 0, 200] 30 45
                   LEFT_CLICK (Finite 0))) = 0
   \<and> created (snd (simulate_throw still_engine CS2_PHYSICS test_world [0, 0, 200] 30 45
                     LEFT_CLICK (Finite 0))) = 1
   \<and> body_ids (snd (simulate_throw still_engine CS2_PHYSICS test_world [0, 0, 200] 30 45
                      LEFT_CLICK (Finite 0))) = []"
  using simulate_throw_nonpositive_time[where max_time = "Finite 0" and eng = still_engine
      and w = test_world and start_pos = "[0, 0, 200]" and pitch = 30 and yaw = 45
      and throw_type = LEFT_CLICK and t = 0]
  by (simp add: still_engine_def test_world_def body_ids_def num_steps_zero float_le_zero_values)

text \<open>
  Claim C2 as stated fails at time budget 0: the call does not raise \<open>ValueError\<close> (it
  ends in the unbound loop variable of line 230), and it has created a dynamic body.
  At the budget \<open>-inf\<close> the call ends in \<open>OverflowError\<close> and the body it created is
  still in the world.
\<close>

theorem simulate_throw_zero_time_not_rejected:
  "fst (simulate_throw still_engine CS2_PHYSICS test_world [0, 0, 200] 30 45 LEFT_CLICK (Finite 0))
     = Inl UnboundLocalError
   \<and> created (snd (simulate_throw still_engine CS2_PHYSICS test_world [0, 0, 200] 30 45
                     LEFT_CLICK (Finite 0))) = 1
   \<and> fst (simulate_throw still_engine CS2_PHYSICS test_world [0, 0, 200] 30 45 LEFT_CLICK NegInf)
     = Inl OverflowError
   \<and> body_ids (snd (simulate_throw still_engine CS2_PHYSICS test_world [0, 0, 200] 30 45
                      LEFT_CLICK NegInf)) = [5]
   \<and> created test_world = 0 \<and> body_ids test_world = []"
proof -
  have nf: "faulty still_engine = (\<lambda>k. False)" by (simp add: still_engine_def)
  have l: "length [0, 0, 200 :: real] = 3" by simp
  have f: "fresh_id test_world = 5" "body_ids test_world = []"
    "created test_world = 0"
    by (simp_all add: test_world_def body_ids_def fresh_id_def)
  from simulate_throw_nofault[OF nf l num_steps_zero, of test_world 30 45 LEFT_CLICK]
  have a: "fst (simulate_throw still_engine CS2_PHYSICS test_world [0, 0, 200] 30 45 LEFT_CLICK
                  (Finite 0)) = Inl UnboundLocalError
     \<and> created (snd (simulate_throw still_engine CS2_PHYSICS test_world [0, 0, 200] 30 45
                     LEFT_CLICK (Finite 0))) = 1"
    by (auto simp: f)
  from simulate_throw_int_raises[OF nf l num_steps_neg_inf, of test_world 30 45 LEFT_CLICK]
  have b: "fst (simulate_throw still_engine CS2_PHYSICS test_world [0, 0, 200] 30 45 LEFT_CLICK NegInf)
     = Inl OverflowError
   \<and> body_ids (snd (simulate_throw still_engine CS2_PHYSICS test_world [0, 0, 200] 30 45
                      LEFT_CLICK NegInf)) = [5]"
    by (auto simp: f)
  from a b f(2,3) show ?thesis by blast
qed

section \<open>The length of the simulation loop\<close>

lemma loop_len_find:
  "loop_len eng cfg g bs [i..<n] =
     (case find (\<lambda>k. at_rest cfg (speed_of ((step_bodies eng ^^ Suc (k - i)) bs) g) k) [i..<n] of
        None \<Rightarrow> n - i
      | Some k \<Rightarrow> Suc k - i)"
proof (induction "n - i" arbitrary: i bs)
  case 0
  then show ?case by simp
next
  case (Suc d)
  then have lt: "i < n" and d: "d = n - Suc i" by simp_all
  have u: "[i..<n] = i # [Suc i..<n]" using lt by (simp add: upt_conv_Cons)
  let ?bs' = "step_bodies eng bs"
  let ?P = "\<lambda>k. at_rest cfg (speed_of ((step_bodies eng ^^ Suc (k - i)) bs) g) k"
  have cong: "find (\<lambda>k. at_rest cfg (speed_of ((step_bodies eng ^^ Suc (k - Suc i)) ?bs') g) k)
                [Suc i..<n] = find ?P [Suc i..<n]"
  proof (rule find_cong[OF refl])
    fix k assume "k \<in> set [Suc i..<n]"
    then have "Suc i \<le> k" by simp
    then have "Suc (k - Suc i) = k - i" by arith
    then have "(step_bodies eng ^^ Suc (k - Suc i)) ?bs' = (step_bodies eng ^^ Suc (k - i)) bs"
      by (simp add: funpow_swap1)
    then show "at_rest cfg (speed_of ((step_bodies eng ^^ Suc (k - Suc i)) ?bs') g) k = ?P k"
      by simp
  qed
  show ?case
  proof (cases "at_rest cfg (speed_of ?bs' g) i")
    case True
    then show ?thesis by (simp add: u Let_def)
  next
    case False
    have ih: "loop_len eng cfg g ?bs' [Suc i..<n] =
       (case find ?P [Suc i..<n] of None \<Rightarrow> n - Suc i | Some k \<Rightarrow> Suc k - Suc i)"
      using Suc.hyps(1)[OF d, of ?bs'] cong by simp
    have ge: "\<And>k. find ?P [Suc i..<n] = Some k \<Longrightarrow> Suc i \<le> k"
      by (auto simp: find_Some_iff)
    show ?thesis
      using False lt ge
      by (auto simp: u Let_def ih split: option.splits)
  qed
qed

lemma run_length_find:
  "run_length eng cfg w start_pos pitch yaw throw_type max_time =
     (case find (\<lambda>k. at_rest cfg (speed (body_after eng cfg w start_pos pitch yaw throw_type (Suc k))) k)
             [0..<loop_bound cfg max_time] of
        None \<Rightarrow> loop_bound cfg max_time
      | Some k \<Rightarrow> Suc k)"
proof -
  have e: "speed_of ((step_bodies eng ^^ Suc k) (initial_bodies cfg w start_pos pitch yaw throw_type))
             (fresh_id w)
      = speed (body_after eng cfg w start_pos pitch yaw throw_type (Suc k))" for k
    using speed_of_bodies_after[of eng cfg w start_pos pitch yaw throw_type "Suc k"]
    by (simp add: bodies_after_def)
  show ?thesis
    using loop_len_find[of eng cfg "fresh_id w" "initial_bodies cfg w start_pos pitch yaw throw_type" 0
      "loop_bound cfg max_time"]
    by (simp add: run_length_def e del: funpow.simps split: option.splits)
qed

lemma body_after_Suc:
  "body_after eng cfg w start_pos pitch yaw throw_type (Suc k) =
     advance eng (bodies_after eng cfg w start_pos pitch yaw throw_type k) (fresh_id w)
       (body_after eng cfg w start_pos pitch yaw throw_type k)"
proof -
  have "bodies_after eng cfg w start_pos pitch yaw throw_type (Suc k)
      = step_bodies eng (bodies_after eng cfg w start_pos pitch yaw throw_type k)"
    by (simp add: bodies_after_def)
  then have "map_of (bodies_after eng cfg w start_pos pitch yaw throw_type (Suc k)) (fresh_id w)
      = Some (advance eng (bodies_after eng cfg w start_pos pitch yaw throw_type k) (fresh_id w)
                (body_after eng cfg w start_pos pitch yaw throw_type k))"
    by (simp add: map_of_step_bodies map_of_bodies_after)
  then show ?thesis
    by (simp add: map_of_bodies_after)
qed

lemma find_first_above: "Suc a < n \<Longrightarrow> find (\<lambda>k. a < k) [0..<n] = Some (Suc a)"
  unfolding find_Some_iff
  by (rule exI[of _ "Suc a"]) auto

lemma find_first_at_least: "a < n \<Longrightarrow> find (\<lambda>k. a \<le> k) [0..<n] = Some a"
  unfolding find_Some_iff
  by (rule exI[of _ a]) auto

lemma still_speed:
  "speed (body_after still_engine cfg w start_pos pitch yaw throw_type (Suc k)) = 0"
  by (simp add: body_after_Suc still_engine_def speed_def list_of_vec3_def linalg_norm_def)

text \<open>
  Claim C7, as amended: when no operation of the world fails, the loop of
  \<open>simulate_throw\<close> stops early exactly at the first iteration whose zero-based index
  \<open>k\<close> is greater than 50 and at which the velocity magnitude of the grenade, read after
  the step of that iteration, is below \<open>10 * meters_per_unit\<close>; it has then run
  \<open>k + 1\<close> steps, at least 52. With no such iteration it runs all \<open>num_steps\<close> steps
  (none when line 186 raises).
\<close>

theorem simulate_throw_exit_index:
  "faulty eng = (\<lambda>k. False) \<Longrightarrow> length start_pos = 3 \<Longrightarrow>
     steps (snd (simulate_throw eng CS2_PHYSICS w start_pos pitch yaw throw_type max_time))
       = steps w +
         (case find (\<lambda>k. speed (body_after eng CS2_PHYSICS w start_pos pitch yaw throw_type (Suc k))
                            < 10 * meters_per_unit CS2_PHYSICS \<and> 50 < k)
                 [0..<loop_bound CS2_PHYSICS max_time] of
            None \<Rightarrow> loop_bound CS2_PHYSICS max_time
          | Some k \<Rightarrow> Suc k)"
  by (simp add: steps_nofault run_length_find at_rest_def)


lemma still_find:
  "find (\<lambda>k. speed (body_after still_engine CS2_PHYSICS w start_pos pitch yaw throw_type (Suc k))
                            < 10 * meters_per_unit CS2_PHYSICS \<and> 50 < k) [0..<120] = Some 51"
proof -
  have m: "10 * meters_per_unit CS2_PHYSICS > 0" by (simp add: CS2_PHYSICS_def)
  have e: "(\<lambda>k. speed (body_after still_engine CS2_PHYSICS w start_pos pitch yaw throw_type (Suc k))
                            < 10 * meters_per_unit CS2_PHYSICS \<and> 50 < k) = (\<lambda>k. 50 < k)"
    using m by (simp add: still_speed)
  show ?thesis
    unfolding e using find_first_above[of 50 120] by simp
qed

text \<open>An instance: a grenade at rest from the first step on, with a budget of one second.\<close>

theorem simulate_throw_exit_index_witness:
  "faulty still_engine = (\<lambda>k. False) \<and> length [0, 0, 200 :: real] = 3
   \<and> steps (snd (simulate_throw still_engine CS2_PHYSICS test_world [0, 0, 200] 30 45 LEFT_CLICK
                   (Finite 1))) = 52"
proof -
  have a: "faulty still_engine = (\<lambda>k. False)" by (simp add: still_engine_def)
  have l: "length [0, 0, 200 :: real] = 3" by simp
  have s: "steps test_world = 0" by (simp add: test_world_def)
  have "steps (snd (simulate_throw still_engine CS2_PHYSICS test_world [0, 0, 200] 30 45 LEFT_CLICK
                   (Finite 1))) = 52"
    unfolding simulate_throw_exit_index[OF a l] loop_bound_values still_find s by simp
  with a l show ?thesis by blast
qed


lemma still_spec_find:
  "find (\<lambda>k. spec_at_rest CS2_PHYSICS
                (speed (body_after still_engine CS2_PHYSICS w start_pos pitch yaw throw_type (Suc k)))
                (Suc k)) [0..<120] = Some 49"
proof -
  have m: "10 * meters_per_unit CS2_PHYSICS > 0" by (simp add: CS2_PHYSICS_def)
  have e: "(\<lambda>k. spec_at_rest CS2_PHYSICS
                (speed (body_after still_engine CS2_PHYSICS w start_pos pitch yaw throw_type (Suc k)))
                (Suc k)) = (\<lambda>k. 49 \<le> k)"
    using m by (auto simp: still_speed spec_at_rest_def)
  show ?thesis
    unfolding e using find_first_at_least[of 49 120] by simp
qed

text \<open>
  Claim C7 as stated fails for a grenade that is at rest from the first step on, with a
  budget of one second: the loop runs 52 steps, where a loop that stops once the
  velocity is below the threshold and at least 50 steps have elapsed runs 50.
\<close>

theorem simulate_throw_rests_after_52:
  "steps (snd (simulate_throw still_engine CS2_PHYSICS test_world [0, 0, 200] 30 45 LEFT_CLICK
                 (Finite 1))) - steps test_world = 52
   \<and> (case find (\<lambda>k. spec_at_rest CS2_PHYSICS
                      (speed (body_after still_engine CS2_PHYSICS test_world [0, 0, 200] 30 45
                                LEFT_CLICK (Suc k))) (Suc k))
              [0..<loop_bound CS2_PHYSICS (Finite 1)] of
         None \<Rightarrow> loop_bound CS2_PHYSICS (Finite 1)
       | Some k \<Rightarrow> Suc k) = 50"
proof -
  have a: "faulty still_engine = (\<lambda>k. False)" by (simp add: still_engine_def)
  have l: "length [0, 0, 200 :: real] = 3" by simp
  have r: "run_length still_engine CS2_PHYSICS test_world [0, 0, 200] 30 45 LEFT_CLICK (Finite 1) = 52"
    unfolding run_length_find loop_bound_values at_rest_def still_find by simp
  have "steps (snd (simulate_throw still_engine CS2_PHYSICS test_world [0, 0, 200] 30 45 LEFT_CLICK
                      (Finite 1))) - steps test_world = 52"
    unfolding steps_nofault[OF a l] r by simp
  moreover have "(case find (\<lambda>k. spec_at_rest CS2_PHYSICS
                      (speed (body_after still_engine CS2_PHYSICS test_world [0, 0, 200] 30 45
                                LEFT_CLICK (Suc k))) (Suc k))
              [0..<loop_bound CS2_PHYSICS (Finite 1)] of
         None \<Rightarrow> loop_bound CS2_PHYSICS (Finite 1)
       | Some k \<Rightarrow> Suc k) = 50"
    unfolding loop_bound_values still_spec_find by simp
  ultimately show ?thesis by blast
qed

lemma num_steps_examples:
  "num_steps CS2_PHYSICS (Finite (1025 / 1000)) = Inr 122"
  "num_steps CS2_PHYSICS (Finite (205 / 100)) = Inr 245"
  "num_steps CS2_PHYSICS (Finite (3 / 10)) = Inr 36"
proof -
  have t0: "round_double (1025 / 1000) = Finite (2308094809027379 / 2251799813685248)"
    by (subst round_double_normal[where e = 0]) (simp_all add: pow2_def rne_def Let_def)
  have q0: "round_double ((2308094809027379 / 2251799813685248) / (4803839602528529 / 576460752303423488)) = Finite (8655355533852671 / 70368744177664)"
    by (subst round_double_normal[where e = 6]) (simp_all add: pow2_def rne_def Let_def)
  show "num_steps CS2_PHYSICS (Finite (1025 / 1000)) = Inr 122"
    using num_steps_finite[OF t0 q0] by (simp add: py_int_def)
  have t1: "round_double (205 / 100) = Finite (2308094809027379 / 1125899906842624)"
    by (subst round_double_normal[where e = 1]) (simp_all add: pow2_def rne_def Let_def)
  have q1: "round_double ((2308094809027379 / 1125899906842624) / (4803839602528529 / 576460752303423488)) = Finite (8655355533852671 / 35184372088832)"
    by (subst round_double_normal[where e = 7]) (simp_all add: pow2_def rne_def Let_def)
  show "num_steps CS2_PHYSICS (Finite (205 / 100)) = Inr 245"
    using num_steps_finite[OF t1 q1] by (simp add: py_int_def)
  have t2: "round_double (3 / 10) = Finite (5404319552844595 / 18014398509481984)"
    by (subst round_double_normal[where e = "- 2"]) (simp_all add: pow2_def rne_def Let_def)
  have q2: "round_double ((5404319552844595 / 18014398509481984) / (4803839602528529 / 576460752303423488)) = Finite (36)"
    by (subst round_double_normal[where e = 5]) (simp_all add: pow2_def rne_def Let_def)
  show "num_steps CS2_PHYSICS (Finite (3 / 10)) = Inr 36"
    using num_steps_finite[OF t2 q2] by (simp add: py_int_def)
qed

text \<open>
  The step count follows the rounded quotient, not the exact one: for a budget of 1.025
  seconds the quotient of the two doubles is 122.99999999999999 and the loop is bounded
  by 122, although \<open>1.025 * 120 = 123\<close>.
\<close>

lemma num_steps_rounds_down:
  "num_steps CS2_PHYSICS (Finite (1025 / 1000)) = Inr 122
   \<and> \<lfloor>(1025 / 1000) / time_step CS2_PHYSICS\<rfloor> = 123"
  using num_steps_examples(1) by (simp add: time_step_default)

text \<open>
  Claim C6, as amended: for every time budget, the loop of \<open>simulate_throw\<close> advances
  the world by at most \<open>num_steps\<close> steps, whatever fails, where \<open>num_steps\<close> is the
  quotient \<open>max_time / time_step\<close>, computed in doubles, truncated toward zero (the
  floor of a positive quotient, not its ceiling), and by none when that computation
  raises; when no operation of the world fails and the start position has three
  coordinates, it advances the world by fewer steps than \<open>num_steps\<close> only if the
  at-rest test of line 212 held at its last iteration.
\<close>

theorem simulate_throw_step_count:
  "steps (snd (simulate_throw eng CS2_PHYSICS w start_pos pitch yaw throw_type max_time))
     \<le> steps w + loop_bound CS2_PHYSICS max_time
   \<and> (\<forall>q. float_div max_time (Finite (time_step CS2_PHYSICS)) = Inr (Finite q) \<longrightarrow>
          num_steps CS2_PHYSICS max_time = Inr (if 0 \<le> q then \<lfloor>q\<rfloor> else \<lceil>q\<rceil>)
          \<and> loop_bound CS2_PHYSICS max_time = nat \<lfloor>q\<rfloor>)
   \<and> (faulty eng = (\<lambda>k. False) \<and> length start_pos = 3 \<longrightarrow>
        (\<exists>r. steps (snd (simulate_throw eng CS2_PHYSICS w start_pos pitch yaw throw_type max_time))
                = steps w + r
            \<and> r \<le> loop_bound CS2_PHYSICS max_time
            \<and> (r < loop_bound CS2_PHYSICS max_time \<longrightarrow>
                 0 < r \<and> at_rest CS2_PHYSICS
                   (speed (body_after eng CS2_PHYSICS w start_pos pitch yaw throw_type r)) (r - 1))))"
proof (intro conjI allI impI)
  show "steps (snd (simulate_throw eng CS2_PHYSICS w start_pos pitch yaw throw_type max_time))
     \<le> steps w + loop_bound CS2_PHYSICS max_time"
    by (rule simulate_throw_steps_le)
next
  fix q assume "float_div max_time (Finite (time_step CS2_PHYSICS)) = Inr (Finite q)"
  then show "num_steps CS2_PHYSICS max_time = Inr (if 0 \<le> q then \<lfloor>q\<rfloor> else \<lceil>q\<rceil>)"
    by (simp add: num_steps_def int_of_float_def py_int_def)
next
  fix q assume "float_div max_time (Finite (time_step CS2_PHYSICS)) = Inr (Finite q)"
  then show "loop_bound CS2_PHYSICS max_time = nat \<lfloor>q\<rfloor>"
    by (rule loop_bound_floor)
next
  assume h: "faulty eng = (\<lambda>k. False) \<and> length start_pos = 3"
  then have nf: "faulty eng = (\<lambda>k. False)" and l: "length start_pos = 3" by simp_all
  let ?n = "loop_bound CS2_PHYSICS max_time"
  let ?P = "\<lambda>k. at_rest CS2_PHYSICS
      (speed (body_after eng CS2_PHYSICS w start_pos pitch yaw throw_type (Suc k))) k"
  let ?r = "run_length eng CS2_PHYSICS w start_pos pitch yaw throw_type max_time"
  have st: "steps (snd (simulate_throw eng CS2_PHYSICS w start_pos pitch yaw throw_type max_time))
                = steps w + ?r"
    by (rule steps_nofault[OF nf l])
  have rl: "?r = (case find ?P [0..<?n] of None \<Rightarrow> ?n | Some k \<Rightarrow> Suc k)"
    by (rule run_length_find)
  have b: "?r \<le> ?n \<and> (?r < ?n \<longrightarrow> 0 < ?r \<and> at_rest CS2_PHYSICS
                   (speed (body_after eng CS2_PHYSICS w start_pos pitch yaw throw_type ?r)) (?r - 1))"
  proof (cases "find ?P [0..<?n]")
    case None
    then show ?thesis using rl by simp
  next
    case (Some k)
    then have "k < ?n" and "?P k" by (auto simp: find_Some_iff)
    moreover have "?r = Suc k" using rl Some by simp
    ultimately show ?thesis by simp
  qed
  show "\<exists>r. steps (snd (simulate_throw eng CS2_PHYSICS w start_pos pitch yaw throw_type max_time))
                = steps w + r
            \<and> r \<le> ?n
            \<and> (r < ?n \<longrightarrow>
                 0 < r \<and> at_rest CS2_PHYSICS
                   (speed (body_after eng CS2_PHYSICS w start_pos pitch yaw throw_type r)) (r - 1))"
    using st b by (intro exI[of _ ?r]) simp
qed

text \<open>An instance with a budget of one second, 120 steps, of which the stub runs 52.\<close>

theorem simulate_throw_step_count_witness:
  "faulty still_engine = (\<lambda>k. False) \<and> length [0, 0, 200 :: real] = 3
   \<and> float_div (Finite 1) (Finite (time_step CS2_PHYSICS)) = Inr (Finite 120)
   \<and> num_steps CS2_PHYSICS (Finite 1) = Inr 120
   \<and> loop_bound CS2_PHYSICS (Finite 1) = 120
   \<and> steps (snd (simulate_throw still_engine CS2_PHYSICS test_world [0, 0, 200] 30 45 LEFT_CLICK
                   (Finite 1))) \<le> 120"
proof -
  have a: "faulty still_engine = (\<lambda>k. False)" by (simp add: still_engine_def)
  have l: "length [0, 0, 200 :: real] = 3" by simp
  have q: "round_double (1 / (4803839602528529 / 576460752303423488)) = Finite 120"
    by (subst round_double_normal[where e = 6]) (simp_all add: pow2_def rne_def Let_def)
  have d: "float_div (Finite 1) (Finite (time_step CS2_PHYSICS)) = Inr (Finite 120)"
    unfolding float_div_def as_double_simps double_time_step round_double_1 fdiv.simps q
    by simp
  have s: "steps test_world = 0" by (simp add: test_world_def)
  from simulate_throw_step_count[where eng = still_engine and w = test_world
      and start_pos = "[0, 0, 200]" and pitch = 30 and yaw = 45 and throw_type = LEFT_CLICK
      and max_time = "Finite 1"]
  have "steps (snd (simulate_throw still_engine CS2_PHYSICS test_world [0, 0, 200] 30 45 LEFT_CLICK
                   (Finite 1))) \<le> steps test_world + loop_bound CS2_PHYSICS (Finite 1)"
    and "num_steps CS2_PHYSICS (Finite 1) = Inr 120"
    and "loop_bound CS2_PHYSICS (Finite 1) = 120"
    using d by auto
  with a l d s show ?thesis by simp
qed

text \<open>
  Claim C6 as stated fails at \<open>max_time = 0.01\<close>: the quotient is 1.2, its ceiling is
  2, and the loop runs one step without any early exit (after one step the at-rest
  condition does not hold, in the specification's reading either).
\<close>

theorem simulate_throw_floor_not_ceiling:
  "steps (snd (simulate_throw still_engine CS2_PHYSICS test_world [0, 0, 200] 30 45 LEFT_CLICK
                 (Finite (1 / 100)))) - steps test_world = 1
   \<and> spec_num_steps CS2_PHYSICS (1 / 100) = 2
   \<and> \<not> spec_at_rest CS2_PHYSICS
        (speed (body_after still_engine CS2_PHYSICS test_world [0, 0, 200] 30 45 LEFT_CLICK 1)) 1"
proof -
  have a: "faulty still_engine = (\<lambda>k. False)" by (simp add: still_engine_def)
  have l: "length [0, 0, 200 :: real] = 3" by simp
  have r: "run_length still_engine CS2_PHYSICS test_world [0, 0, 200] 30 45 LEFT_CLICK
             (Finite (1 / 100)) = 1"
    unfolding run_length_find loop_bound_values by (simp add: at_rest_def)
  have "steps (snd (simulate_throw still_engine CS2_PHYSICS test_world [0, 0, 200] 30 45 LEFT_CLICK
                      (Finite (1 / 100)))) - steps test_world = 1"
    unfolding steps_nofault[OF a l] r by simp
  moreover have "spec_num_steps CS2_PHYSICS (1 / 100) = 2"
    by (simp add: spec_num_steps_def time_step_default)
  moreover have "\<not> spec_at_rest CS2_PHYSICS
        (speed (body_after still_engine CS2_PHYSICS test_world [0, 0, 200] 30 45 LEFT_CLICK 1)) 1"
    by (simp add: spec_at_rest_def)
  ultimately show ?thesis by blast
qed

section \<open>Throw types without an entry in the speed table\<close>

lemma cfg_speed_table:
  "convert_bullet_to_cs2 (cfg\<lparr>throw_speeds := ts\<rparr>) = convert_bullet_to_cs2 cfg"
  "convert_cs2_to_bullet (cfg\<lparr>throw_speeds := ts\<rparr>) = convert_cs2_to_bullet cfg"
  "is_bounce (cfg\<lparr>throw_speeds := ts\<rparr>) = is_bounce cfg"
  "at_rest (cfg\<lparr>throw_speeds := ts\<rparr>) = at_rest cfg"
  "num_steps (cfg\<lparr>throw_speeds := ts\<rparr>) = num_steps cfg"
  "grenade_radius (cfg\<lparr>throw_speeds := ts\<rparr>) = grenade_radius cfg"
  "grenade_mass (cfg\<lparr>throw_speeds := ts\<rparr>) = grenade_mass cfg"
  "grenade_restitution (cfg\<lparr>throw_speeds := ts\<rparr>) = grenade_restitution cfg"
  "grenade_friction (cfg\<lparr>throw_speeds := ts\<rparr>) = grenade_friction cfg"
  "grenade_linear_damping (cfg\<lparr>throw_speeds := ts\<rparr>) = grenade_linear_damping cfg"
  "grenade_angular_damping (cfg\<lparr>throw_speeds := ts\<rparr>) = grenade_angular_damping cfg"
  "meters_per_unit (cfg\<lparr>throw_speeds := ts\<rparr>) = meters_per_unit cfg"
  "time_step (cfg\<lparr>throw_speeds := ts\<rparr>) = time_step cfg"
  by (auto simp: convert_bullet_to_cs2_def convert_cs2_to_bullet_def is_bounce_def
      at_rest_def num_steps_def fun_eq_iff)

lemma sim_loop_speed_table:
  "sim_loop eng (cfg\<lparr>throw_speeds := ts\<rparr>) g is lv w = sim_loop eng cfg g is lv w"
proof (induction "is" arbitrary: lv w)
  case Nil
  show ?case by simp
next
  case (Cons i rest)
  show ?case
    unfolding sim_loop.simps cfg_speed_table Cons.IH ..
qed

lemma spawn_grenade_speed_table:
  "spawn_grenade eng (cfg\<lparr>throw_speeds := ts\<rparr>) w sb vel = spawn_grenade eng cfg w sb vel"
  unfolding spawn_grenade_def cfg_speed_table ..

lemma finish_throw_speed_table:
  "finish_throw eng (cfg\<lparr>throw_speeds := ts\<rparr>) g lv w = finish_throw eng cfg g lv w"
  unfolding finish_throw_def cfg_speed_table ..

lemma simulate_throw_speed_table:
  assumes "get_throw_speed (cfg\<lparr>throw_speeds := ts\<rparr>) throw_type = get_throw_speed cfg throw_type"
  shows "simulate_throw eng (cfg\<lparr>throw_speeds := ts\<rparr>) w start_pos pitch yaw throw_type max_time
     = simulate_throw eng cfg w start_pos pitch yaw throw_type max_time"
proof -
  have v: "velocity_bullet (cfg\<lparr>throw_speeds := ts\<rparr>) pitch yaw throw_type
      = velocity_bullet cfg pitch yaw throw_type"
    using assms by (simp add: velocity_bullet_def)
  show ?thesis
    unfolding simulate_throw_def v cfg_speed_table assms sim_loop_speed_table
      spawn_grenade_speed_table finish_throw_speed_table ..
qed

text \<open>
  Claim C9, as amended: a throw type that has no entry in the speed table is not
  rejected; \<open>get_throw_speed\<close> gives it the default speed of 900 units per second, and
  \<open>simulate_throw\<close> does for it exactly what it does when the table holds 900 for it.
\<close>

theorem unknown_throw_type_uses_default:
  "throw_speeds cfg throw_type = None \<Longrightarrow>
     get_throw_speed cfg throw_type = 900
     \<and> simulate_throw eng cfg w start_pos pitch yaw throw_type max_time
       = simulate_throw eng (cfg\<lparr>throw_speeds := (throw_speeds cfg)(throw_type \<mapsto> 900)\<rparr>)
           w start_pos pitch yaw throw_type max_time"
proof -
  assume a: "throw_speeds cfg throw_type = None"
  have g: "get_throw_speed cfg throw_type = 900"
    using a by (simp add: get_throw_speed_def)
  have "get_throw_speed (cfg\<lparr>throw_speeds := (throw_speeds cfg)(throw_type \<mapsto> 900)\<rparr>) throw_type
      = get_throw_speed cfg throw_type"
    using g by (simp add: get_throw_speed_def)
  from simulate_throw_speed_table[OF this] g show ?thesis by simp
qed

text \<open>An instance: a table without \<open>RIGHT_CLICK\<close>.\<close>

theorem unknown_throw_type_uses_default_witness:
  "throw_speeds two_speed_config RIGHT_CLICK = None
   \<and> get_throw_speed two_speed_config RIGHT_CLICK = 900"
proof -
  have a: "throw_speeds two_speed_config RIGHT_CLICK = None"
    by (simp add: two_speed_config_def)
  from unknown_throw_type_uses_default[OF a] a show ?thesis by blast
qed

text \<open>
  Claim C9 as stated fails for a table without \<open>RIGHT_CLICK\<close>: a throw of that type
  with a budget of one step is simulated and returns a result, not \<open>ValueError\<close>.
\<close>

theorem unknown_throw_type_not_rejected:
  "throw_speeds two_speed_config RIGHT_CLICK = None
   \<and> fst (simulate_throw still_engine two_speed_config test_world [0, 0, 200] 0 0 RIGHT_CLICK
            (Finite (1 / 120)))
     = Inr ([[0, 0, 0]],
            \<lparr> final_position = [0, 0, 0], final_velocity = 0, bounces = 1,
              simulation_time = 0, trajectory_points = 1 \<rparr>)"
proof -
  have n: "num_steps two_speed_config (Finite (1 / 120)) = Inr 1"
    unfolding two_speed_config_def cfg_speed_table by (rule num_steps_one_step)
  have a: "throw_speeds two_speed_config RIGHT_CLICK = None"
    by (simp add: two_speed_config_def)
  have b: "fst (simulate_throw still_engine two_speed_config test_world [0, 0, 200] 0 0 RIGHT_CLICK
            (Finite (1 / 120)))
     = Inr ([[0, 0, 0]],
            \<lparr> final_position = [0, 0, 0], final_velocity = 0, bounces = 1,
              simulation_time = 0, trajectory_points = 1 \<rparr>)"
    unfolding simulate_throw_def n
    by (simp add: eval_defs still_engine_def two_speed_config_def radians_def)
  from a b show ?thesis by blast
qed

section \<open>The grid of the search\<close>

lemma linspace_pitches: "linspace (- 20) 60 10 = spec_pitches"
  by (simp add: linspace_def upt_10 spec_pitches_def)

lemma length_spec_candidates: "length (spec_candidates target_pos throw_type) = 1000"
  by (simp add: spec_candidates_def spec_axis_def spec_pitches_def length_concat comp_def)

text \<open>
  For the target of the module's self-test, whose grid is computed without rounding, the
  calls of the search are those of the specification's grid.
\<close>

lemma grid_calls_self_test:
  "grid_calls [500, 500, 50] throw_type = Inr (spec_candidates [500, 500, 50] throw_type)"
  by (simp add: grid_calls_def spec_candidates_def grid_axis_500 spec_axis_def linspace_pitches
        vsub_def Let_def)

text \<open>
  Claim C4 fails for the target \<open>(649.4, 500, 50)\<close>. In doubles the bounds of the
  \<open>x\<close> axis are 149.39999999999998 and 1149.4, their difference is 1000.0000000000001
  and the quotient by the step is 10.000000000000002, so that \<open>np.arange\<close> yields 11
  values, not 10. The last of them is 1149.4, the upper bound \<open>center + 500\<close> itself,
  which the half-open interval of the claim excludes; the search makes 1100 throws where
  the grid of the claim has 1000 candidates.
\<close>

theorem grid_search_includes_upper_bound:
  "grid_axis (6494 / 10) =
     Inr [1314136297517875 / 8796093022208,
        2193745599738675 / 8796093022208,
        3073354901959475 / 8796093022208,
        3952964204180275 / 8796093022208,
        4832573506401075 / 8796093022208,
        5712182808621875 / 8796093022208,
        6591792110842675 / 8796093022208,
        7471401413063475 / 8796093022208,
        8351010715284275 / 8796093022208,
        2307655004376269 / 2199023255552,
        2527557329931469 / 2199023255552]
   \<and> (6494 / 10 + 500 :: real) \<le> 2527557329931469 / 2199023255552
   \<and> length (calls_of (grid_calls [6494 / 10, 500, 50] LEFT_CLICK)) = 1100
   \<and> length (spec_candidates [6494 / 10, 500, 50] LEFT_CLICK) = 1000"
proof -
  obtain cs where cs: "grid_calls [6494 / 10, 500, 50] LEFT_CLICK = Inr cs" "length cs = 1100"
    using grid_calls_6494[of LEFT_CLICK] by blast
  have n: "length (calls_of (grid_calls [6494 / 10, 500, 50] LEFT_CLICK)) = 1100"
    unfolding cs(1) calls_of_def using cs(2) by simp
  have b: "(6494 / 10 + 500 :: real) \<le> 2527557329931469 / 2199023255552" by simp
  from grid_axis_6494 b n length_spec_candidates[of "[6494 / 10, 500, 50]" LEFT_CLICK]
  show ?thesis by blast
qed

section \<open>The result of the search\<close>

lemma try_candidate_good:
  "\<forall>s\<in>set (fst sw). good_solution target_pos s \<Longrightarrow>
     \<forall>s\<in>set (fst (try_candidate eng cfg target_pos c sw)). good_solution target_pos s"
  by (cases c; cases sw)
     (auto simp: try_candidate_def good_solution_def Let_def split: prod.splits sum.splits)

lemma fold_try_candidate_good:
  "\<forall>s\<in>set (fst sw). good_solution target_pos s \<Longrightarrow>
     \<forall>s\<in>set (fst (fold (try_candidate eng cfg target_pos) cs sw)). good_solution target_pos s"
proof (induction cs arbitrary: sw)
  case Nil
  then show ?case by simp
next
  case (Cons c cs)
  show ?case
    using Cons.IH[OF try_candidate_good[OF Cons.prems]] by simp
qed

lemma set_slice_to: "set (slice_to xs n) \<subseteq> set xs"
  by (auto simp: slice_to_def dest: in_set_takeD)

lemma sorted_slice_to: "sorted (map f xs) \<Longrightarrow> sorted (map f (slice_to xs n))"
  by (simp add: slice_to_def take_map[symmetric] sorted_wrt_take del: take_map)

lemma length_slice_to: "0 \<le> n \<Longrightarrow> int (length (slice_to xs n)) \<le> n"
  by (simp add: slice_to_def)

lemma grid_search_solutions:
  "3 \<le> length target_pos \<Longrightarrow> grid_calls target_pos throw_type = Inr cs \<Longrightarrow>
     fst (grid_search eng cfg w target_pos throw_type max_results) =
       Inr (slice_to (sort_key accuracy
              (fst (fold (try_candidate eng cfg target_pos) cs ([], w))))
            max_results)"
  by (simp add: grid_search_def split: prod.splits)

lemma find_smokes_grid:
  "find_smokes eng cfg w target_pos throw_type strategy max_results
     = grid_search eng cfg w target_pos throw_type max_results"
  by (simp add: find_smokes_def genetic_search_def hybrid_search_def)

lemma solutions_of_grid:
  "solutions_of (grid_search eng cfg w target_pos throw_type max_results) =
     (if 3 \<le> length target_pos
      then slice_to (sort_key accuracy
              (fst (fold (try_candidate eng cfg target_pos)
                      (calls_of (grid_calls target_pos throw_type)) ([], w))))
            max_results
      else [])"
proof (cases "3 \<le> length target_pos")
  case True
  show ?thesis
  proof (cases "grid_calls target_pos throw_type")
    case (Inl e)
    then show ?thesis
      using True by (simp add: solutions_of_def grid_search_def calls_of_def slice_to_def)
  next
    case (Inr cs)
    then show ?thesis
      using True by (simp add: solutions_of_def grid_search_solutions calls_of_def)
  qed
next
  case False
  then show ?thesis by (simp add: solutions_of_def grid_search_def)
qed

text \<open>
  Claim C3, as amended: for every engine, world, target, throw type, strategy and
  \<open>max_results\<close>, the solutions that the search returns are sorted by ascending
  accuracy, and each has an accuracy strictly below 150 that is the Euclidean distance
  from its landing position to the target; when \<open>max_results\<close> is not negative there
  are at most \<open>max_results\<close> of them. The search returns (it does not raise) for every
  target of three coordinates of which the first two are at most \<open>10 ^ 18\<close> in
  magnitude.
\<close>

theorem find_smokes_sorted_and_accurate:
  "sorted (map accuracy (solutions_of
      (find_smokes eng cfg w target_pos throw_type strategy max_results)))
   \<and> (\<forall>s\<in>set (solutions_of (find_smokes eng cfg w target_pos throw_type strategy max_results)).
        accuracy s < 150
        \<and> accuracy s = linalg_norm (vsub (s_landing_position s) target_pos))
   \<and> (0 \<le> max_results \<longrightarrow>
        int (length (solutions_of (find_smokes eng cfg w target_pos throw_type strategy max_results)))
          \<le> max_results)
   \<and> (length target_pos = 3 \<and> \<bar>target_pos ! 0\<bar> \<le> 10 ^ 18 \<and> \<bar>target_pos ! 1\<bar> \<le> 10 ^ 18 \<longrightarrow>
        fst (find_smokes eng cfg w target_pos throw_type strategy max_results)
          = Inr (solutions_of (find_smokes eng cfg w target_pos throw_type strategy max_results)))"
proof -
  let ?all = "fst (fold (try_candidate eng cfg target_pos)
                     (calls_of (grid_calls target_pos throw_type)) ([], w))"
  let ?sols = "solutions_of (find_smokes eng cfg w target_pos throw_type strategy max_results)"
  have g: "\<forall>s\<in>set ?all. good_solution target_pos s"
    by (rule fold_try_candidate_good) simp
  have t: "fst (find_smokes eng cfg w target_pos throw_type strategy max_results) = Inr ?sols"
    if h: "length target_pos = 3 \<and> \<bar>target_pos ! 0\<bar> \<le> 10 ^ 18 \<and> \<bar>target_pos ! 1\<bar> \<le> 10 ^ 18"
  proof -
    from h have l: "length target_pos = 3" and x: "\<bar>target_pos ! 0\<bar> \<le> 10 ^ 18"
      and y: "\<bar>target_pos ! 1\<bar> \<le> 10 ^ 18" by simp_all
    from grid_calls_total[OF l x y, of throw_type] obtain cs where
      cs: "grid_calls target_pos throw_type = Inr cs" ..
    have l3: "3 \<le> length target_pos" using l by simp
    show ?thesis
      unfolding find_smokes_grid solutions_of_def grid_search_solutions[OF l3 cs] by simp
  qed
  show ?thesis
  proof (cases "3 \<le> length target_pos")
    case True
    have so: "?sols = slice_to (sort_key accuracy ?all) max_results"
      using True by (simp add: find_smokes_grid solutions_of_grid)
    have s1: "sorted (map accuracy (slice_to (sort_key accuracy ?all) max_results))"
      by (rule sorted_slice_to) (rule sorted_sort_key)
    have s2: "\<forall>s\<in>set (slice_to (sort_key accuracy ?all) max_results). good_solution target_pos s"
      using g set_slice_to[of "sort_key accuracy ?all" max_results] by auto
    have s3: "0 \<le> max_results \<longrightarrow>
        int (length (slice_to (sort_key accuracy ?all) max_results)) \<le> max_results"
      using length_slice_to[of max_results "sort_key accuracy ?all"] by simp
    show ?thesis
      using s1 s2 s3 t unfolding so[symmetric]
      by (auto simp: good_solution_def max_accuracy_def)
  next
    case False
    then have "?sols = []" by (simp add: find_smokes_grid solutions_of_grid)
    then show ?thesis using False by simp
  qed
qed

text \<open>The search with the stub engine: every candidate lands on the target at the origin.\<close>

lemma still_pos:
  "0 < m \<Longrightarrow> b_pos (body_after still_engine cfg w start_pos pitch yaw throw_type m) = (0, 0, 0)"
  by (cases m) (simp_all add: body_after_Suc still_engine_def)

lemma still_throw:
  assumes l: "length start_pos = 3"
  shows "\<exists>traj res w'. simulate_throw still_engine CS2_PHYSICS w start_pos pitch yaw throw_type
              (Finite 2) = (Inr (traj, res), w') \<and> final_position res = [0, 0, 0]"
proof -
  have a: "faulty still_engine = (\<lambda>k. False)" by (simp add: still_engine_def)
  have m: "0 < run_length still_engine CS2_PHYSICS w start_pos pitch yaw throw_type (Finite 2)"
    unfolding run_length_def loop_bound_values by (rule loop_len_pos) simp
  from simulate_throw_nofault[OF a l num_steps_two, of w pitch yaw throw_type]
  show ?thesis
    using still_pos[OF m] by (auto simp: Let_def)
qed

lemma still_try:
  assumes l: "length throw_pos = 3"
  shows "\<exists>s w'. try_candidate still_engine CS2_PHYSICS [0, 0, 0]
            (throw_pos, pitch, yaw, throw_type, Finite 2) (solutions, w) = (solutions @ [s], w')"
proof -
  from still_throw[OF l, of w pitch yaw throw_type] obtain traj res w' where
    s: "simulate_throw still_engine CS2_PHYSICS w throw_pos pitch yaw throw_type (Finite 2)
            = (Inr (traj, res), w')" "final_position res = [0, 0, 0]"
    by blast
  show ?thesis
    by (simp add: try_candidate_def s vsub_def linalg_norm_def max_accuracy_def)
qed

lemma still_fold:
  "\<forall>c\<in>set cs. length (fst c) = 3 \<and> snd (snd (snd (snd c))) = Finite 2 \<Longrightarrow>
     length (fst (fold (try_candidate still_engine CS2_PHYSICS [0, 0, 0]) cs (solutions, w)))
       = length solutions + length cs"
proof (induction cs arbitrary: solutions w)
  case Nil
  then show ?case by simp
next
  case (Cons c cs)
  obtain throw_pos pitch yaw throw_type where c: "c = (throw_pos, pitch, yaw, throw_type, Finite 2)"
    and l: "length throw_pos = 3"
    using Cons.prems by (cases c) auto
  from still_try[OF l, of pitch yaw throw_type solutions w] obtain s w' where
    t: "try_candidate still_engine CS2_PHYSICS [0, 0, 0] c (solutions, w) = (solutions @ [s], w')"
    unfolding c by blast
  have "\<forall>c\<in>set cs. length (fst c) = 3 \<and> snd (snd (snd (snd c))) = Finite 2"
    using Cons.prems by simp
  from Cons.IH[OF this, of "solutions @ [s]" w'] show ?case
    by (simp add: t)
qed

lemma still_grid_count:
  "length (fst (fold (try_candidate still_engine CS2_PHYSICS [0, 0, 0])
                  (calls_of (grid_calls [0, 0, 0] throw_type)) ([], w))) = 1000"
proof -
  from grid_calls_origin[of throw_type] obtain cs where
    cs: "grid_calls [0, 0, 0] throw_type = Inr cs" "length cs = 1000" by blast
  from still_fold[OF grid_calls_shape[OF cs(1)], of "[]" w] show ?thesis
    by (simp add: cs calls_of_def)
qed

lemma still_solutions:
  "solutions_of (find_smokes still_engine CS2_PHYSICS w [0, 0, 0] throw_type strategy max_results)
     = slice_to (sort_key accuracy (fst (fold (try_candidate still_engine CS2_PHYSICS [0, 0, 0])
                  (calls_of (grid_calls [0, 0, 0] throw_type)) ([], w)))) max_results"
  by (simp add: find_smokes_grid solutions_of_grid)

text \<open>An instance with ten solutions returned.\<close>

theorem find_smokes_sorted_and_accurate_witness:
  "(0::int) \<le> 10 \<and> length [0, 0, 0 :: real] = 3
   \<and> \<bar>[0, 0, 0 :: real] ! 0\<bar> \<le> 10 ^ 18 \<and> \<bar>[0, 0, 0 :: real] ! 1\<bar> \<le> 10 ^ 18
   \<and> length (solutions_of (find_smokes still_engine CS2_PHYSICS test_world [0, 0, 0] LEFT_CLICK
                  GRID_SEARCH 10)) = 10
   \<and> sorted (map accuracy (solutions_of (find_smokes still_engine CS2_PHYSICS test_world [0, 0, 0]
                  LEFT_CLICK GRID_SEARCH 10)))
   \<and> fst (find_smokes still_engine CS2_PHYSICS test_world [0, 0, 0] LEFT_CLICK GRID_SEARCH 10)
       = Inr (solutions_of (find_smokes still_engine CS2_PHYSICS test_world [0, 0, 0] LEFT_CLICK
                  GRID_SEARCH 10))"
proof -
  have n: "length (solutions_of (find_smokes still_engine CS2_PHYSICS test_world [0, 0, 0] LEFT_CLICK
                  GRID_SEARCH 10)) = 10"
    unfolding still_solutions by (simp add: slice_to_def still_grid_count)
  from find_smokes_sorted_and_accurate[of still_engine CS2_PHYSICS test_world "[0, 0, 0]" LEFT_CLICK
      GRID_SEARCH 10] n
  show ?thesis by auto
qed

text \<open>
  Claim C3 as stated fails for a negative \<open>max_results\<close>: the search returns 999
  solutions for \<open>max_results = -1\<close>.
\<close>

theorem find_smokes_negative_max_results:
  "length (solutions_of (find_smokes still_engine CS2_PHYSICS test_world [0, 0, 0] LEFT_CLICK
              GRID_SEARCH (- 1))) = 999
   \<and> \<not> int (length (solutions_of (find_smokes still_engine CS2_PHYSICS test_world [0, 0, 0]
              LEFT_CLICK GRID_SEARCH (- 1)))) \<le> - 1"
proof -
  have n: "length (solutions_of (find_smokes still_engine CS2_PHYSICS test_world [0, 0, 0] LEFT_CLICK
                  GRID_SEARCH (- 1))) = 999"
    unfolding still_solutions by (simp add: slice_to_def still_grid_count)
  then show ?thesis by simp
qed

end
